theory Spec2Isabelle
  imports Main
begin

section \<open>Values shared by the whole package\<close>

text \<open>
  A Go \<open>error\<close> value. \<open>ErrorsNew msg\<close> is \<open>errors.New(msg)\<close>; the other
  constructors stand for the errors of the standard library and of the package's own
  helpers that \<open>parser.go\<close> only passes on: a path error of package \<open>os\<close>, an
  error of another library call, the two outcomes of a failed \<open>exec.Cmd.Run\<close>
  (executable not found, non-zero exit status), the two \<open>strconv\<close> errors and the
  two failures of resource resolution.
\<close>

datatype error =
    ErrorsNew string
  | PathError string
  | LibError string
  | ErrNotFound
  | ExitError nat
  | ErrSyntax
  | ErrRange
  | ResourceNotFound
  | ResourceCycleError

text \<open>A decoded \<open>image.Image\<close>; its pixels are opaque here.\<close>

datatype image = Image "nat list"

type_synonym bytes = "nat list"

text \<open>\<open>ResTableConfig\<close>: \<open>parser.go\<close> sets the field \<open>Density\<close> only.\<close>

record ResTableConfig =
  Density :: nat

section \<open>The string functions of the standard library that the parser calls\<close>

text \<open>Go strings are byte sequences; \<open>string\<close> is a list of 8-bit characters.\<close>

definition HasPrefix :: "string \<Rightarrow> string \<Rightarrow> bool" where
  "HasPrefix s pre = (length pre \<le> length s \<and> take (length pre) s = pre)"

definition HasSuffix :: "string \<Rightarrow> string \<Rightarrow> bool" where
  "HasSuffix s suf = (length suf \<le> length s \<and> drop (length s - length suf) s = suf)"

text \<open>\<open>strings.Index\<close>: the position of the first occurrence of \<open>sep\<close>.\<close>

fun Index :: "string \<Rightarrow> string \<Rightarrow> nat option" where
  "Index [] sep = (if sep = [] then Some 0 else None)"
| "Index (c # cs) sep =
     (if HasPrefix (c # cs) sep then Some 0 else map_option Suc (Index cs sep))"

definition Contains :: "string \<Rightarrow> string \<Rightarrow> bool" where
  "Contains s sub = (Index s sub \<noteq> None)"

text \<open>\<open>strings.Cut\<close> returns \<open>(before, after, found)\<close> around the first occurrence.\<close>

definition Cut :: "string \<Rightarrow> string \<Rightarrow> string \<times> string \<times> bool" where
  "Cut s sep =
     (case Index s sep of
        Some i \<Rightarrow> (take i s, drop (i + length sep) s, True)
      | None \<Rightarrow> (s, [], False))"

text \<open>
  \<open>strings.Split(s, sep)\<close> for a separator of one byte, the only way the parser calls
  it: the pieces between the separators, at least one piece.
\<close>

fun Split :: "string \<Rightarrow> char \<Rightarrow> string list" where
  "Split [] sep = [[]]"
| "Split (c # cs) sep =
     (if c = sep then [] # Split cs sep
      else (case Split cs sep of
              [] \<Rightarrow> [[c]]
            | l # ls \<Rightarrow> (c # l) # ls))"

text \<open>
  \<open>strings.Replace(s, old, "", -1)\<close> for \<open>old\<close> of one byte: every occurrence of the
  byte is removed.
\<close>

definition ReplaceAll :: "string \<Rightarrow> char \<Rightarrow> string" where
  "ReplaceAll s old = filter (\<lambda>c. c \<noteq> old) s"

definition lowerByte :: "char \<Rightarrow> char" where
  "lowerByte c =
     (if (65::nat) \<le> of_char c \<and> of_char c \<le> (90::nat)
      then char_of (of_char c + (32::nat)) else c)"

text \<open>
  \<open>strings.ToLower\<close>: a string of ASCII bytes is lower-cased byte by byte; any other
  string goes through the Unicode case mapping, which is a parameter here.
\<close>

definition ToLower :: "(string \<Rightarrow> string) \<Rightarrow> string \<Rightarrow> string" where
  "ToLower unicodeLower s =
     (if list_all (\<lambda>c. of_char c < (128::nat)) s then map lowerByte s
      else unicodeLower s)"

text \<open>
  \<open>filepath.Ext\<close>: scanning from the end and stopping at a path separator (the
  slash), the suffix that starts at the first dot met; empty when there is none.
\<close>

fun extScan :: "string \<Rightarrow> string \<Rightarrow> string" where
  "extScan [] acc = []"
| "extScan (c # cs) acc =
     (if c = CHR ''/'' then []
      else if c = CHR ''.'' then c # acc
      else extScan cs (c # acc))"

definition Ext :: "string \<Rightarrow> string" where
  "Ext path = extScan (rev path) []"

subsection \<open>\<open>strconv.Atoi\<close>\<close>

definition isDigit :: "char \<Rightarrow> bool" where
  "isDigit c = ((48::int) \<le> of_char c \<and> of_char c \<le> (57::int))"

definition digitVal :: "char \<Rightarrow> int" where
  "digitVal c = of_char c - 48"

definition maxUint64 :: int where
  "maxUint64 = 2 ^ 64 - 1"

definition cutoff10 :: int where
  "cutoff10 = maxUint64 div 10 + 1"

text \<open>
  The digit loop of \<open>strconv.ParseUint(s, 10, 64)\<close>. Each byte is classified first (a
  byte that is no decimal digit is a syntax error with value 0); then the accumulator
  is checked for overflow, which returns at once with the largest value and a range
  error, whatever bytes follow.
\<close>

fun parseUintLoop :: "int \<Rightarrow> string \<Rightarrow> int \<times> error option" where
  "parseUintLoop n [] = (n, None)"
| "parseUintLoop n (c # cs) =
     (if \<not> isDigit c then (0, Some ErrSyntax)
      else if cutoff10 \<le> n then (maxUint64, Some ErrRange)
      else if maxUint64 < n * 10 + digitVal c then (maxUint64, Some ErrRange)
      else parseUintLoop (n * 10 + digitVal c) cs)"

definition ParseUint :: "string \<Rightarrow> int \<times> error option" where
  "ParseUint s = (if s = [] then (0, Some ErrSyntax) else parseUintLoop 0 s)"

text \<open>\<open>strconv.ParseInt(s, 10, 0)\<close> with a 64-bit \<open>int\<close>.\<close>

definition ParseInt :: "string \<Rightarrow> int \<times> error option" where
  "ParseInt s =
     (case s of
        [] \<Rightarrow> (0, Some ErrSyntax)
      | c # cs \<Rightarrow>
          (let neg = (c = CHR ''-'');
               body = (if c = CHR ''+'' \<or> c = CHR ''-'' then cs else s);
               (un, err) = ParseUint body
           in if err = Some ErrSyntax then (0, err)
              else if \<not> neg \<and> 2 ^ 63 \<le> un then (2 ^ 63 - 1, Some ErrRange)
              else if neg \<and> 2 ^ 63 < un then (- (2 ^ 63), Some ErrRange)
              else (if neg then - un else un, None)))"

text \<open>
  \<open>strconv.Atoi\<close> is \<open>ParseInt(s, 10, 0)\<close> converted to \<open>int\<close>; its fast path for
  short strings computes the same pair.
\<close>

definition Atoi :: "string \<Rightarrow> int \<times> error option" where
  "Atoi s = ParseInt s"

section \<open>The data of \<open>parser.go\<close>\<close>

definition androidExt :: string where
  "androidExt = ''.apk''"

record AppInfo =
  Name :: string
  BundleId :: string
  Version :: string
  Build :: int
  Icon :: "image option"
  Size :: int
  SignatureMd5 :: string
  SignatureSha1 :: string
  SignatureSha256 :: string
  Md5 :: string
  UsesPermission :: "string list"
  SupportOS64 :: bool
  SupportOS32 :: bool

text \<open>\<open>new(AppInfo)\<close>: every field has its zero value.\<close>

definition newAppInfo :: AppInfo where
  "newAppInfo =
     \<lparr>Name = [], BundleId = [], Version = [], Build = 0, Icon = None, Size = 0,
      SignatureMd5 = [], SignatureSha1 = [], SignatureSha256 = [], Md5 = [],
      UsesPermission = [], SupportOS64 = False, SupportOS32 = False\<rparr>"

text \<open>
  The struct \<open>androidManifest\<close> with its two anonymous element structs. The fields of
  the elements carry a prefix, since \<open>Name\<close> is a field of \<open>AppInfo\<close> already.
\<close>

record usesPermission =
  up_Text :: string
  up_Name :: string

record permission =
  p_Text :: string
  p_Name :: string
  p_ProtectionLevel :: string

record androidManifest =
  Package :: string
  VersionName :: string
  VersionCode :: string
  m_UsesPermission :: "usesPermission list"
  m_Permission :: "permission list"

section \<open>The world outside the parser\<close>

text \<open>
  An entry of the archive (\<open>*zip.File\<close>): its name, and what \<open>Open\<close> returns: an
  error, or a reader, itself given by what \<open>io.ReadAll\<close> returns on it.
\<close>

record zipFile =
  fName :: string
  fOpen :: "error + (error + bytes)"

record fileInfo =
  fiName :: string
  fiSize :: int

text \<open>
  An opened \<open>*os.File\<close>, given by what each operation on it returns: \<open>Stat\<close>,
  \<open>zip.NewReader\<close> over it with a size, and the MD5 digest of its bytes in hexadecimal
  (\<open>io.Copy\<close> into the hash, then \<open>fmt.Sprintf\<close>).
\<close>

record osFile =
  fStat :: "error + fileInfo"
  fZip :: "int \<Rightarrow> error + zipFile list"
  fMd5 :: "error + string"

text \<open>
  An opened package (the result of \<open>openFile\<close>), given by the outcome of the resource
  lookups behind \<open>icon\<close> and \<open>label\<close>.
\<close>

record apk =
  iconLookup :: "ResTableConfig \<Rightarrow> error + image"
  labelLookup :: "ResTableConfig option \<Rightarrow> error + string"

record env =
  osOpen :: "string \<Rightarrow> error + osFile"
  execRun :: "string \<Rightarrow> string list \<Rightarrow> error + string"
  openFile :: "string \<Rightarrow> error + apk"
  NewXMLFile :: "bytes \<Rightarrow> error + string"
  xmlDecode :: "string \<Rightarrow> error + androidManifest"
  unicodeLower :: "string \<Rightarrow> string"

text \<open>The calls that leave the parser, in the order they are made.\<close>

datatype event =
    OsOpen string
  | FileStat
  | FileClose
  | ZipNewReader int
  | ZipEntryOpen string
  | ReadAll
  | RcClose
  | NewXMLFileCall
  | XmlDecode
  | Md5Copy
  | ExecRun string "string list"
  | OpenFile string
  | PkgIcon ResTableConfig
  | PkgLabel "ResTableConfig option"
  | PkgClose

type_synonym 'a eff = "'a \<times> event list"

definition call :: "event \<Rightarrow> 'a \<Rightarrow> 'a eff" where
  "call ev r = (r, [ev])"

definition retE :: "'a \<Rightarrow> 'a eff" where
  "retE r = (r, [])"

definition thenE :: "'a eff \<Rightarrow> ('a \<Rightarrow> 'b eff) \<Rightarrow> 'b eff" where
  "thenE m f = (fst (f (fst m)), snd m @ snd (f (fst m)))"

text \<open>A deferred call runs when the function returns, on every path.\<close>

definition deferE :: "event \<Rightarrow> 'a eff \<Rightarrow> 'a eff" where
  "deferE ev m = (fst m, snd m @ [ev])"

section \<open>\<open>parser.go\<close>\<close>

subsection \<open>\<open>getSignature\<close>\<close>

text \<open>The loop over the lines of the tool's output; a later matching line overwrites.\<close>

fun matchLines :: "string list \<Rightarrow> string \<times> string \<times> string \<Rightarrow> string \<times> string \<times> string" where
  "matchLines [] acc = acc"
| "matchLines (line # rest) (resultMD5, resultSHA1, resultSHA256) =
     (if Contains line ''MD5:''
      then matchLines rest (fst (snd (Cut line ''MD5:'')), resultSHA1, resultSHA256)
      else if Contains line ''SHA1:''
      then matchLines rest (resultMD5, fst (snd (Cut line ''SHA1:'')), resultSHA256)
      else if Contains line ''SHA256:''
      then matchLines rest (resultMD5, resultSHA1, fst (snd (Cut line ''SHA256:'')))
      else matchLines rest (resultMD5, resultSHA1, resultSHA256))"

definition normalizeDigest :: "(string \<Rightarrow> string) \<Rightarrow> string \<Rightarrow> string" where
  "normalizeDigest ul r = ToLower ul (ReplaceAll (ReplaceAll r CHR '' '') CHR '':'')"

definition getSignature :: "env \<Rightarrow> string \<Rightarrow> string \<Rightarrow> (string \<times> string \<times> string) eff" where
  "getSignature e apkPath keyToolPath =
     (if apkPath = [] \<or> keyToolPath = [] then retE ([], [], [])
      else
        thenE (call (ExecRun keyToolPath [''-printcert'', ''-jarfile'', apkPath])
                 (execRun e keyToolPath [''-printcert'', ''-jarfile'', apkPath]))
          (\<lambda>r. case r of
             Inl errRun \<Rightarrow> retE ([], [], [])
           | Inr output \<Rightarrow>
               (case matchLines (Split output (CHR 0x0A)) ([], [], []) of
                  (resultMD5, resultSHA1, resultSHA256) \<Rightarrow>
                    retE (normalizeDigest (unicodeLower e) resultMD5,
                          normalizeDigest (unicodeLower e) resultSHA1,
                          normalizeDigest (unicodeLower e) resultSHA256))))"

subsection \<open>\<open>getApkMd5\<close>\<close>

definition getApkMd5 :: "osFile \<Rightarrow> (string \<times> error option) eff" where
  "getApkMd5 file =
     thenE (call Md5Copy (fMd5 file))
       (\<lambda>r. case r of
          Inl err \<Rightarrow> retE ([], Some err)
        | Inr hex \<Rightarrow> retE (hex, None))"

subsection \<open>\<open>parseAndroidManifest\<close> and \<open>parseApkFile\<close>\<close>

definition parseAndroidManifest :: "env \<Rightarrow> zipFile \<Rightarrow> (error + androidManifest) eff" where
  "parseAndroidManifest e xmlFile =
     thenE (call (ZipEntryOpen (fName xmlFile)) (fOpen xmlFile))
       (\<lambda>r. case r of
          Inl err \<Rightarrow> retE (Inl err)
        | Inr rc \<Rightarrow>
            deferE RcClose
              (thenE (call ReadAll rc)
                 (\<lambda>r. case r of
                    Inl err \<Rightarrow> retE (Inl err)
                  | Inr buf \<Rightarrow>
                      thenE (call NewXMLFileCall (NewXMLFile e buf))
                        (\<lambda>r. case r of
                           Inl err \<Rightarrow> retE (Inl err)
                         | Inr xmlContent \<Rightarrow>
                             thenE (call XmlDecode (xmlDecode e xmlContent))
                               (\<lambda>r. case r of
                                  Inl err \<Rightarrow> retE (Inl err)
                                | Inr manifest \<Rightarrow> retE (Inr manifest))))))"

text \<open>The loop of \<open>parseApkFile\<close> appending the permission names.\<close>

fun appendPermissions :: "usesPermission list \<Rightarrow> AppInfo \<Rightarrow> AppInfo" where
  "appendPermissions [] info = info"
| "appendPermissions (permission # rest) info =
     appendPermissions rest (info\<lparr>UsesPermission := UsesPermission info @ [up_Name permission]\<rparr>)"

definition parseApkFile :: "env \<Rightarrow> zipFile option \<Rightarrow> (error + AppInfo) eff" where
  "parseApkFile e xmlFile =
     (case xmlFile of
        None \<Rightarrow> retE (Inl (ErrorsNew ''AndroidManifest.xml not found''))
      | Some xf \<Rightarrow>
          thenE (parseAndroidManifest e xf)
            (\<lambda>r. case r of
               Inl err \<Rightarrow> retE (Inl err)
             | Inr manifest \<Rightarrow>
                 (let info = newAppInfo;
                      versionCode = fst (Atoi (VersionCode manifest));
                      info = info\<lparr>BundleId := Package manifest\<rparr>;
                      info = info\<lparr>Version := VersionName manifest\<rparr>;
                      info = info\<lparr>Build := versionCode\<rparr>
                  in retE (Inr (appendPermissions (m_UsesPermission manifest) info)))))"

subsection \<open>\<open>parseApkIconAndLabel\<close>\<close>

text \<open>
  Modelled from the spec: the methods \<open>icon\<close> and \<open>label\<close> of the opened package are
  not among the source files. The spec has a failed resolution leave the field empty
  ("no icon/no label available"), so each returns the zero value next to its error,
  and the resolved value with a nil error otherwise.
\<close>

definition icon :: "apk \<Rightarrow> ResTableConfig \<Rightarrow> image option \<times> error option" where
  "icon pkg cfg =
     (case iconLookup pkg cfg of
        Inl err \<Rightarrow> (None, Some err)
      | Inr img \<Rightarrow> (Some img, None))"

text \<open>
  Modelled from the spec: the method \<open>label\<close>, absent like \<open>icon\<close>; the empty string
  next to an error.
\<close>

definition label :: "apk \<Rightarrow> ResTableConfig option \<Rightarrow> string \<times> error option" where
  "label pkg cfg =
     (case labelLookup pkg cfg of
        Inl err \<Rightarrow> ([], Some err)
      | Inr s \<Rightarrow> (s, None))"

definition parseApkIconAndLabel :: "env \<Rightarrow> string \<Rightarrow> (error + image option \<times> string) eff" where
  "parseApkIconAndLabel e name =
     thenE (call (OpenFile name) (openFile e name))
       (\<lambda>r. case r of
          Inl err \<Rightarrow> retE (Inl err)
        | Inr pkg \<Rightarrow>
            deferE PkgClose
              (thenE (call (PkgIcon \<lparr>Density = 720\<rparr>) (icon pkg \<lparr>Density = 720\<rparr>))
                 (\<lambda>ri. thenE (call (PkgLabel None) (label pkg None))
                    (\<lambda>rl. retE (Inr (fst ri, fst rl))))))"

subsection \<open>\<open>NewAppParser\<close>\<close>

text \<open>The variables of the loop over the entries of the archive.\<close>

record scan =
  xmlFile :: "zipFile option"
  supportOS64 :: bool
  supportOS32 :: bool
  hasSoFile :: bool

definition scan0 :: scan where
  "scan0 = \<lparr>xmlFile = None, supportOS64 = False, supportOS32 = False, hasSoFile = False\<rparr>"

definition scanStep :: "scan \<Rightarrow> zipFile \<Rightarrow> scan" where
  "scanStep s f =
     (let s = (if fName f = ''AndroidManifest.xml'' then s\<lparr>xmlFile := Some f\<rparr> else s);
          s = (if HasSuffix (fName f) ''.so'' then s\<lparr>hasSoFile := True\<rparr> else s);
          s = (if HasPrefix (fName f) ''lib/arm64-v8a'' then s\<lparr>supportOS64 := True\<rparr> else s);
          s = (if HasPrefix (fName f) ''lib/armeabi'' then s\<lparr>supportOS32 := True\<rparr> else s)
      in s)"

fun scanLoop :: "scan \<Rightarrow> zipFile list \<Rightarrow> scan" where
  "scanLoop s [] = s"
| "scanLoop s (f # fs) = scanLoop (scanStep s f) fs"

text \<open>Lines 101 to 107: the two flags of the result.\<close>

definition setSupport :: "scan \<Rightarrow> AppInfo \<Rightarrow> AppInfo" where
  "setSupport s info =
     (if hasSoFile s = False \<and> supportOS64 s = False \<and> supportOS32 s = False
      then info\<lparr>SupportOS64 := True, SupportOS32 := True\<rparr>
      else info\<lparr>SupportOS64 := supportOS64 s, SupportOS32 := supportOS32 s\<rparr>)"

text \<open>
  The rest of \<open>NewAppParser\<close> once the manifest is parsed: nothing here fails but
  \<open>parseApkIconAndLabel\<close>.
\<close>

definition finish :: "env \<Rightarrow> string \<Rightarrow> string \<Rightarrow> bool \<Rightarrow> osFile \<Rightarrow> fileInfo \<Rightarrow> AppInfo \<Rightarrow> (error + AppInfo) eff" where
  "finish e name keyToolPath isIcon file stat info =
     thenE (getApkMd5 file)
       (\<lambda>rm. thenE (getSignature e name keyToolPath)
          (\<lambda>sig. thenE (parseApkIconAndLabel e name)
             (\<lambda>r. case r of
                Inl errExtra \<Rightarrow> retE (Inl errExtra)
              | Inr (iconImg, labelStr) \<Rightarrow>
                  (let info = info\<lparr>Md5 := fst rm\<rparr>;
                       info = info\<lparr>SignatureMd5 := fst sig,
                                   SignatureSha1 := fst (snd sig),
                                   SignatureSha256 := snd (snd sig)\<rparr>;
                       info = info\<lparr>Name := labelStr\<rparr>;
                       info = (if isIcon then info\<lparr>Icon := iconImg\<rparr> else info);
                       info = info\<lparr>Size := fiSize stat\<rparr>
                   in retE (Inr info)))))"

definition NewAppParser :: "env \<Rightarrow> string \<Rightarrow> string \<Rightarrow> bool \<Rightarrow> (error + AppInfo) eff" where
  "NewAppParser e name keyToolPath isIcon =
     thenE (call (OsOpen name) (osOpen e name))
       (\<lambda>r. case r of
          Inl err \<Rightarrow> retE (Inl err)
        | Inr file \<Rightarrow>
            deferE FileClose
              (thenE (call FileStat (fStat file))
                 (\<lambda>r. case r of
                    Inl err \<Rightarrow> retE (Inl err)
                  | Inr stat \<Rightarrow>
                      if Ext (fiName stat) \<noteq> androidExt
                      then retE (Inl (ErrorsNew ''unknown platform''))
                      else
                        thenE (call (ZipNewReader (fiSize stat)) (fZip file (fiSize stat)))
                          (\<lambda>r. case r of
                             Inl err \<Rightarrow> retE (Inl err)
                           | Inr reader \<Rightarrow>
                               thenE (parseApkFile e (xmlFile (scanLoop scan0 reader)))
                                 (\<lambda>r. case r of
                                    Inl errParse \<Rightarrow> retE (Inl errParse)
                                  | Inr info \<Rightarrow>
                                      finish e name keyToolPath isIcon file stat
                                        (setSupport (scanLoop scan0 reader) info))))))"

section \<open>The resource resolver\<close>

text \<open>
  Modelled from the spec: the resource table and the resolver (spec, sections 3 and
  4.3) are not among the source files. A table maps a resource id (a 32-bit value,
  only compared here) to the values recorded for it, each under its configuration, in
  declaration order; a value is a literal or a reference to another id.
\<close>

type_synonym ResourceId = nat

record Configuration =
  density :: "nat option"
  qualifiers :: "string list"

datatype Value = Literal string | Reference ResourceId

type_synonym ResourceTable = "ResourceId \<Rightarrow> (Configuration \<times> Value) list"

definition specificity :: "Configuration \<Rightarrow> nat" where
  "specificity c = (case density c of None \<Rightarrow> 0 | Some d \<Rightarrow> 1) + length (qualifiers c)"

definition densityOf :: "Configuration \<Rightarrow> nat" where
  "densityOf c = (case density c of None \<Rightarrow> 0 | Some d \<Rightarrow> d)"

text \<open>The first of the best entries: a later entry replaces the choice only if better.\<close>

fun pickBest :: "('a \<Rightarrow> 'a \<Rightarrow> bool) \<Rightarrow> 'a option \<Rightarrow> 'a list \<Rightarrow> 'a option" where
  "pickBest better cur [] = cur"
| "pickBest better None (x # xs) = pickBest better (Some x) xs"
| "pickBest better (Some b) (x # xs) = pickBest better (Some (if better x b then x else b)) xs"

definition betterUp :: "Configuration \<times> Value \<Rightarrow> Configuration \<times> Value \<Rightarrow> bool" where
  "betterUp x y =
     (densityOf (fst x) < densityOf (fst y) \<or>
      (densityOf (fst x) = densityOf (fst y) \<and> specificity (fst y) < specificity (fst x)))"

definition betterDown :: "Configuration \<times> Value \<Rightarrow> Configuration \<times> Value \<Rightarrow> bool" where
  "betterDown x y =
     (densityOf (fst y) < densityOf (fst x) \<or>
      (densityOf (fst x) = densityOf (fst y) \<and> specificity (fst y) < specificity (fst x)))"

definition betterDefault :: "Configuration \<times> Value \<Rightarrow> Configuration \<times> Value \<Rightarrow> bool" where
  "betterDefault x y = (specificity (fst y) < specificity (fst x))"

text \<open>
  Modelled from the spec: the policy of section 4.3, absent from the source files:
  among the entries with a density, the smallest density
  at or above the requested one, else the largest below it; an entry without a
  density is the fallback; ties go to the more specific configuration, then to the
  entry declared first.
\<close>

definition bestMatch :: "(Configuration \<times> Value) list \<Rightarrow> Configuration \<Rightarrow> Value option" where
  "bestMatch entries requested =
     (let qualified = filter (\<lambda>x. density (fst x) \<noteq> None) entries;
          ups = filter (\<lambda>x. densityOf requested \<le> densityOf (fst x)) qualified;
          downs = filter (\<lambda>x. densityOf (fst x) < densityOf requested) qualified;
          defaults = filter (\<lambda>x. density (fst x) = None) entries
      in map_option snd
           (if ups \<noteq> [] then pickBest betterUp None ups
            else if downs \<noteq> [] then pickBest betterDown None downs
            else pickBest betterDefault None defaults))"

definition maxDepth :: nat where
  "maxDepth = 10"

text \<open>
  Modelled from the spec: the loop of the resolver (section 4.3 and the design notes),
  absent from the source files, with its depth counter, the number of references
  followed so far; the counter is returned next to the result.
\<close>

function resolveFrom :: "ResourceTable \<Rightarrow> Configuration \<Rightarrow> nat \<Rightarrow> ResourceId \<Rightarrow> (error + string) \<times> nat" where
  "resolveFrom table requested depth rid =
     (case bestMatch (table rid) requested of
        None \<Rightarrow> (Inl ResourceNotFound, depth)
      | Some (Literal v) \<Rightarrow> (Inr v, depth)
      | Some (Reference next) \<Rightarrow>
          if maxDepth \<le> depth then (Inl ResourceCycleError, depth)
          else resolveFrom table requested (depth + 1) next)"
  by pat_completeness auto
termination
  by (relation "measure (\<lambda>(table, requested, depth, rid). maxDepth - depth)") auto

text \<open>
  Modelled from the spec: \<open>resolve(table, resourceId, requestedConfiguration)\<close> of
  section 4.3, absent from the source files.
\<close>

definition resolve :: "ResourceTable \<Rightarrow> ResourceId \<Rightarrow> Configuration \<Rightarrow> error + string" where
  "resolve table rid requested = fst (resolveFrom table requested 0 rid)"

text \<open>The id a lookup refers to, when the best match is a reference.\<close>

definition refTarget :: "ResourceTable \<Rightarrow> Configuration \<Rightarrow> ResourceId \<Rightarrow> ResourceId option" where
  "refTarget table requested rid =
     (case bestMatch (table rid) requested of
        Some (Reference next) \<Rightarrow> Some next
      | _ \<Rightarrow> None)"

text \<open>\<open>chain table requested k rid\<close>: the next \<open>k\<close> lookups from \<open>rid\<close> all yield references.\<close>

fun chain :: "ResourceTable \<Rightarrow> Configuration \<Rightarrow> nat \<Rightarrow> ResourceId \<Rightarrow> bool" where
  "chain table requested 0 rid = True"
| "chain table requested (Suc k) rid =
     (case refTarget table requested rid of
        None \<Rightarrow> False
      | Some next \<Rightarrow> chain table requested k next)"

section \<open>Notions of the specification\<close>

text \<open>
  An entry counts as native code for \<open>NewAppParser\<close> when its name ends in \<open>.so\<close> or
  lies under one of the two ABI prefixes.
\<close>

definition nativeEntry :: "string \<Rightarrow> bool" where
  "nativeEntry n =
     (HasSuffix n ''.so'' \<or> HasPrefix n ''lib/arm64-v8a'' \<or> HasPrefix n ''lib/armeabi'')"

text \<open>A decimal integer string: an optional sign, then one decimal digit or more.\<close>

definition unsignedPart :: "string \<Rightarrow> string" where
  "unsignedPart s =
     (case s of
        [] \<Rightarrow> []
      | c # cs \<Rightarrow> if c = CHR ''+'' \<or> c = CHR ''-'' then cs else s)"

definition isDecimalInteger :: "string \<Rightarrow> bool" where
  "isDecimalInteger s = (unsignedPart s \<noteq> [] \<and> list_all isDigit (unsignedPart s))"

section \<open>A sample world\<close>

definition sampleManifest :: "string \<Rightarrow> androidManifest" where
  "sampleManifest vc =
     \<lparr>Package = ''com.example.app'', VersionName = ''1.2.3'', VersionCode = vc,
      m_UsesPermission =
        [\<lparr>up_Text = [], up_Name = ''android.permission.CAMERA''\<rparr>,
         \<lparr>up_Text = [], up_Name = ''android.permission.INTERNET''\<rparr>],
      m_Permission = []\<rparr>"

definition sampleEntry :: "string \<Rightarrow> zipFile" where
  "sampleEntry n = \<lparr>fName = n, fOpen = Inr (Inr [3, 0, 8, 0])\<rparr>"

definition sampleFile :: "string \<Rightarrow> string list \<Rightarrow> osFile" where
  "sampleFile n entries =
     \<lparr>fStat = Inr \<lparr>fiName = n, fiSize = 2048\<rparr>,
      fZip = (\<lambda>size. Inr (map sampleEntry entries)),
      fMd5 = Inr ''0123456789abcdef0123456789abcdef''\<rparr>"

definition samplePkg :: "error + image \<Rightarrow> error + string \<Rightarrow> apk" where
  "samplePkg ic lb = \<lparr>iconLookup = (\<lambda>cfg. ic), labelLookup = (\<lambda>cfg. lb)\<rparr>"

text \<open>
  A world with the files \<open>present\<close>, each an archive with the entries \<open>entries\<close>
  whose manifest has the version code \<open>vc\<close>; the digest tool \<open>keytool\<close> answers
  \<open>tool\<close>, and the resource lookups answer \<open>ic\<close> and \<open>lb\<close>.
\<close>

definition sampleEnv ::
  "string list \<Rightarrow> string list \<Rightarrow> string \<Rightarrow> error + string \<Rightarrow> error + image \<Rightarrow> error + string \<Rightarrow> env" where
  "sampleEnv present entries vc tool ic lb =
     \<lparr>osOpen = (\<lambda>n. if n \<in> set present then Inr (sampleFile n entries) else Inl (PathError n)),
      execRun = (\<lambda>path args. if path = ''keytool'' then tool else Inl ErrNotFound),
      openFile = (\<lambda>n. Inr (samplePkg ic lb)),
      NewXMLFile = (\<lambda>buf. Inr ''<manifest/>''),
      xmlDecode = (\<lambda>xml. Inr (sampleManifest vc)),
      unicodeLower = (\<lambda>s. s)\<rparr>"

definition selfTable :: ResourceTable where
  "selfTable rid =
     (if rid = 2130837504 then [(\<lparr>density = None, qualifiers = []\<rparr>, Reference 2130837504)]
      else [])"

definition aliasTable :: ResourceTable where
  "aliasTable rid =
     (if rid = 2130837504 then [(\<lparr>density = None, qualifiers = []\<rparr>, Reference 2130837505)]
      else if rid = 2130837505
      then [(\<lparr>density = Some 160, qualifiers = []\<rparr>, Literal ''small''),
            (\<lparr>density = Some 480, qualifiers = []\<rparr>, Literal ''large''),
            (\<lparr>density = None, qualifiers = []\<rparr>, Literal ''any'')]
      else [])"

section \<open>Properties\<close>

subsection \<open>Effects\<close>

lemma fst_call [simp]: "fst (call ev r) = r"
  by (simp add: call_def)

lemma snd_call [simp]: "snd (call ev r) = [ev]"
  by (simp add: call_def)

lemma fst_retE [simp]: "fst (retE r) = r"
  by (simp add: retE_def)

lemma snd_retE [simp]: "snd (retE r) = []"
  by (simp add: retE_def)

lemma fst_thenE [simp]: "fst (thenE m f) = fst (f (fst m))"
  by (simp add: thenE_def)

lemma snd_thenE [simp]: "snd (thenE m f) = snd m @ snd (f (fst m))"
  by (simp add: thenE_def)

lemma fst_deferE [simp]: "fst (deferE ev m) = fst m"
  by (simp add: deferE_def)

lemma snd_deferE [simp]: "snd (deferE ev m) = snd m @ [ev]"
  by (simp add: deferE_def)

subsection \<open>The scan of the archive\<close>

lemma scanLoop_supportOS64:
  "supportOS64 (scanLoop s fs) =
     (supportOS64 s \<or> (\<exists>f\<in>set fs. HasPrefix (fName f) ''lib/arm64-v8a''))"
  by (induction fs arbitrary: s) (auto simp: scanStep_def Let_def)

lemma scanLoop_supportOS32:
  "supportOS32 (scanLoop s fs) =
     (supportOS32 s \<or> (\<exists>f\<in>set fs. HasPrefix (fName f) ''lib/armeabi''))"
  by (induction fs arbitrary: s) (auto simp: scanStep_def Let_def)

lemma scanLoop_hasSoFile:
  "hasSoFile (scanLoop s fs) =
     (hasSoFile s \<or> (\<exists>f\<in>set fs. HasSuffix (fName f) ''.so''))"
  by (induction fs arbitrary: s) (auto simp: scanStep_def Let_def)

subsection \<open>What a successful run went through\<close>

lemma finish_Inr:
  "fst (finish e name kt isIcon file stat info) = Inr info' \<Longrightarrow>
   \<exists>pkg. openFile e name = Inr pkg \<and>
     info' = info\<lparr>Md5 := fst (fst (getApkMd5 file)),
              SignatureMd5 := fst (fst (getSignature e name kt)),
              SignatureSha1 := fst (snd (fst (getSignature e name kt))),
              SignatureSha256 := snd (snd (fst (getSignature e name kt))),
              Name := fst (label pkg None),
              Icon := (if isIcon then fst (icon pkg \<lparr>Density = 720\<rparr>) else Icon info),
              Size := fiSize stat\<rparr>"
  by (auto simp: finish_def parseApkIconAndLabel_def Let_def split: sum.splits if_splits)

lemma NewAppParser_Inr:
  "fst (NewAppParser e name kt isIcon) = Inr info \<Longrightarrow>
   \<exists>file stat reader info0.
     osOpen e name = Inr file \<and> fStat file = Inr stat \<and> Ext (fiName stat) = androidExt \<and>
     fZip file (fiSize stat) = Inr reader \<and>
     fst (parseApkFile e (xmlFile (scanLoop scan0 reader))) = Inr info0 \<and>
     fst (finish e name kt isIcon file stat (setSupport (scanLoop scan0 reader) info0)) = Inr info"
  by (auto simp: NewAppParser_def split: sum.splits if_splits)

subsection \<open>The architecture flags\<close>

lemma setSupport_flags:
  "SupportOS64 (setSupport s info) = (supportOS64 s \<or> (\<not> hasSoFile s \<and> \<not> supportOS32 s))"
  "SupportOS32 (setSupport s info) = (supportOS32 s \<or> (\<not> hasSoFile s \<and> \<not> supportOS64 s))"
  by (auto simp: setSupport_def)

lemma NewAppParser_flags:
  assumes "fst (NewAppParser e name kt isIcon) = Inr info"
    and "osOpen e name = Inr file" and "fStat file = Inr stat"
    and "fZip file (fiSize stat) = Inr entries"
  shows "SupportOS64 info = SupportOS64 (setSupport (scanLoop scan0 entries) newAppInfo)"
    and "SupportOS32 info = SupportOS32 (setSupport (scanLoop scan0 entries) newAppInfo)"
  using NewAppParser_Inr [OF assms(1)] assms(2-4)
  by (auto dest!: finish_Inr simp: setSupport_def)

lemma NewAppParser_SupportOS64:
  assumes "fst (NewAppParser e name kt isIcon) = Inr info"
    and "osOpen e name = Inr file" and "fStat file = Inr stat"
    and "fZip file (fiSize stat) = Inr entries"
  shows "SupportOS64 info =
      ((\<exists>f\<in>set entries. HasPrefix (fName f) ''lib/arm64-v8a'') \<or>
       \<not> (\<exists>f\<in>set entries. HasSuffix (fName f) ''.so'') \<and>
       \<not> (\<exists>f\<in>set entries. HasPrefix (fName f) ''lib/armeabi''))"
  unfolding NewAppParser_flags(1) [OF assms] setSupport_flags scanLoop_supportOS64
    scanLoop_supportOS32 scanLoop_hasSoFile
  by (simp add: scan0_def)

lemma NewAppParser_SupportOS32:
  assumes "fst (NewAppParser e name kt isIcon) = Inr info"
    and "osOpen e name = Inr file" and "fStat file = Inr stat"
    and "fZip file (fiSize stat) = Inr entries"
  shows "SupportOS32 info =
      ((\<exists>f\<in>set entries. HasPrefix (fName f) ''lib/armeabi'') \<or>
       \<not> (\<exists>f\<in>set entries. HasSuffix (fName f) ''.so'') \<and>
       \<not> (\<exists>f\<in>set entries. HasPrefix (fName f) ''lib/arm64-v8a''))"
  unfolding NewAppParser_flags(2) [OF assms] setSupport_flags scanLoop_supportOS64
    scanLoop_supportOS32 scanLoop_hasSoFile
  by (simp add: scan0_def)

lemma manifest_not_native:
  "\<not> HasSuffix ''AndroidManifest.xml'' ''.so''"
  "\<not> HasPrefix ''AndroidManifest.xml'' ''lib/arm64-v8a''"
  "\<not> HasPrefix ''AndroidManifest.xml'' ''lib/armeabi''"
  by (simp_all add: HasSuffix_def HasPrefix_def)

lemma libx_prefixes:
  "HasPrefix ''lib/arm64-v8a/libx.so'' ''lib/arm64-v8a''"
  "\<not> HasPrefix ''lib/arm64-v8a/libx.so'' ''lib/armeabi''"
  by (simp_all add: HasPrefix_def)

subsection \<open>The manifest fields and the calls made\<close>

lemma appendPermissions_eq:
  "appendPermissions ps info = info\<lparr>UsesPermission := UsesPermission info @ map up_Name ps\<rparr>"
  by (induction ps arbitrary: info) simp_all

lemma parseApkFile_Inr:
  "fst (parseApkFile e x) = Inr info \<Longrightarrow>
   \<exists>xf m. x = Some xf \<and> fst (parseAndroidManifest e xf) = Inr m \<and>
     info = newAppInfo\<lparr>BundleId := Package m, Version := VersionName m,
              Build := fst (Atoi (VersionCode m)),
              UsesPermission := map up_Name (m_UsesPermission m)\<rparr>"
  by (auto simp: parseApkFile_def Let_def appendPermissions_eq newAppInfo_def
      split: option.splits sum.splits)

lemma parseApkFile_of_manifest:
  "fst (parseAndroidManifest e xf) = Inr m \<Longrightarrow>
   fst (parseApkFile e (Some xf)) =
     Inr (newAppInfo\<lparr>BundleId := Package m, Version := VersionName m,
              Build := fst (Atoi (VersionCode m)),
              UsesPermission := map up_Name (m_UsesPermission m)\<rparr>)"
  by (simp add: parseApkFile_def Let_def appendPermissions_eq newAppInfo_def)

lemma parseAndroidManifest_events:
  "set (snd (parseAndroidManifest e xf)) \<subseteq>
     {ZipEntryOpen (fName xf), ReadAll, NewXMLFileCall, XmlDecode, RcClose}"
  by (auto simp: parseAndroidManifest_def split: sum.splits)

lemma parseApkFile_events:
  "set (snd (parseApkFile e x)) \<subseteq>
     (case x of None \<Rightarrow> {} | Some xf \<Rightarrow> {ZipEntryOpen (fName xf), ReadAll, NewXMLFileCall, XmlDecode, RcClose})"
  using parseAndroidManifest_events
  by (auto simp: parseApkFile_def Let_def split: option.splits sum.splits)

lemma parseApkFile_no_lookup:
  "PkgIcon c \<notin> set (snd (parseApkFile e x))" "PkgLabel l \<notin> set (snd (parseApkFile e x))"
  "OpenFile n \<notin> set (snd (parseApkFile e x))" "ZipNewReader z \<notin> set (snd (parseApkFile e x))"
  using parseApkFile_events [of e x] by (auto split: option.splits)

lemma getSignature_events:
  "set (snd (getSignature e a k)) \<subseteq> {ExecRun k [''-printcert'', ''-jarfile'', a]}"
  by (auto simp: getSignature_def split: sum.splits prod.splits)

lemma getApkMd5_events: "snd (getApkMd5 file) = [Md5Copy]"
  by (simp add: getApkMd5_def split: sum.splits)

lemma finish_lookup_reached:
  "PkgIcon c \<in> set (snd (finish e name kt isIcon file stat info)) \<Longrightarrow>
   \<exists>info'. fst (finish e name kt isIcon file stat info) = Inr info'"
  using getSignature_events [of e name kt]
  by (auto simp: finish_def getApkMd5_events parseApkIconAndLabel_def Let_def split: sum.splits)

lemma finish_Inr_events:
  "fst (finish e name kt isIcon file stat info) = Inr info' \<Longrightarrow>
   PkgIcon \<lparr>Density = 720\<rparr> \<in> set (snd (finish e name kt isIcon file stat info)) \<and>
   PkgLabel None \<in> set (snd (finish e name kt isIcon file stat info))"
  by (auto simp: finish_def parseApkIconAndLabel_def Let_def split: sum.splits)


lemma NewAppParser_lookup_reached:
  "PkgIcon c \<in> set (snd (NewAppParser e name kt isIcon)) \<Longrightarrow>
   \<exists>info. fst (NewAppParser e name kt isIcon) = Inr info"
  using parseApkFile_no_lookup(1) [of c e]
  by (auto simp: NewAppParser_def dest: finish_lookup_reached split: sum.splits if_splits)

lemma NewAppParser_Inr_events:
  "fst (NewAppParser e name kt isIcon) = Inr info \<Longrightarrow>
   PkgIcon \<lparr>Density = 720\<rparr> \<in> set (snd (NewAppParser e name kt isIcon)) \<and>
   PkgLabel None \<in> set (snd (NewAppParser e name kt isIcon))"
  by (auto simp: NewAppParser_def dest: finish_Inr_events split: sum.splits if_splits)

lemma NewAppParser_fields:
  assumes "fst (NewAppParser e name kt isIcon) = Inr info"
  shows "\<exists>file stat reader xf m pkg.
     osOpen e name = Inr file \<and> fStat file = Inr stat \<and>
     fZip file (fiSize stat) = Inr reader \<and>
     xmlFile (scanLoop scan0 reader) = Some xf \<and>
     fst (parseAndroidManifest e xf) = Inr m \<and>
     openFile e name = Inr pkg \<and>
     BundleId info = Package m \<and> Version info = VersionName m \<and>
     Build info = fst (Atoi (VersionCode m)) \<and>
     UsesPermission info = map up_Name (m_UsesPermission m) \<and>
     Name info = fst (label pkg None) \<and>
     Icon info = (if isIcon then fst (icon pkg \<lparr>Density = 720\<rparr>) else None) \<and>
     Size info = fiSize stat \<and>
     Md5 info = fst (fst (getApkMd5 file)) \<and>
     SignatureMd5 info = fst (fst (getSignature e name kt)) \<and>
     SignatureSha1 info = fst (snd (fst (getSignature e name kt))) \<and>
     SignatureSha256 info = snd (snd (fst (getSignature e name kt)))"
proof -
  from NewAppParser_Inr [OF assms] obtain fl stat reader info0 where
    a: "osOpen e name = Inr fl" "fStat fl = Inr stat" "fZip fl (fiSize stat) = Inr reader"
    and p: "fst (parseApkFile e (xmlFile (scanLoop scan0 reader))) = Inr info0"
    and f: "fst (finish e name kt isIcon fl stat (setSupport (scanLoop scan0 reader) info0)) = Inr info"
    by blast
  from parseApkFile_Inr [OF p] obtain xf m where
    x: "xmlFile (scanLoop scan0 reader) = Some xf" "fst (parseAndroidManifest e xf) = Inr m"
    and i0: "info0 = newAppInfo\<lparr>BundleId := Package m, Version := VersionName m,
              Build := fst (Atoi (VersionCode m)),
              UsesPermission := map up_Name (m_UsesPermission m)\<rparr>"
    by blast
  from finish_Inr [OF f] obtain pkg where
    k: "openFile e name = Inr pkg"
    and i: "info = (setSupport (scanLoop scan0 reader) info0)\<lparr>Md5 := fst (fst (getApkMd5 fl)),
              SignatureMd5 := fst (fst (getSignature e name kt)),
              SignatureSha1 := fst (snd (fst (getSignature e name kt))),
              SignatureSha256 := snd (snd (fst (getSignature e name kt))),
              Name := fst (label pkg None),
              Icon := (if isIcon then fst (icon pkg \<lparr>Density = 720\<rparr>)
                       else Icon (setSupport (scanLoop scan0 reader) info0)),
              Size := fiSize stat\<rparr>"
    by blast
  have "BundleId info = Package m \<and> Version info = VersionName m \<and>
     Build info = fst (Atoi (VersionCode m)) \<and>
     UsesPermission info = map up_Name (m_UsesPermission m) \<and>
     Name info = fst (label pkg None) \<and>
     Icon info = (if isIcon then fst (icon pkg \<lparr>Density = 720\<rparr>) else None) \<and>
     Size info = fiSize stat \<and>
     Md5 info = fst (fst (getApkMd5 fl)) \<and>
     SignatureMd5 info = fst (fst (getSignature e name kt)) \<and>
     SignatureSha1 info = fst (snd (fst (getSignature e name kt))) \<and>
     SignatureSha256 info = snd (snd (fst (getSignature e name kt)))"
    unfolding i i0 by (simp add: setSupport_def newAppInfo_def)
  with a x k show ?thesis by blast
qed

lemma NewAppParser_manifest:
  assumes "fst (NewAppParser e name kt isIcon) = Inr info"
    and "osOpen e name = Inr file" and "fStat file = Inr stat"
    and "fZip file (fiSize stat) = Inr reader"
    and "xmlFile (scanLoop scan0 reader) = Some xf"
    and "fst (parseAndroidManifest e xf) = Inr m"
  shows "BundleId info = Package m \<and> Version info = VersionName m \<and>
     Build info = fst (Atoi (VersionCode m)) \<and>
     UsesPermission info = map up_Name (m_UsesPermission m)"
  using NewAppParser_fields [OF assms(1)] assms(2-6) by auto

subsection \<open>\<open>strconv.Atoi\<close>\<close>

lemma Atoi_45: "Atoi ''45'' = (45, None)"
  by (simp add: Atoi_def ParseInt_def ParseUint_def isDigit_def digitVal_def maxUint64_def
      cutoff10_def)

lemma isDigit_digitVal: "isDigit c \<Longrightarrow> 0 \<le> digitVal c \<and> digitVal c \<le> 9"
  by (simp add: isDigit_def digitVal_def)

lemma parseUintLoop_syntax:
  "\<not> list_all isDigit cs \<Longrightarrow> 0 \<le> n \<Longrightarrow> n < 10 ^ k \<Longrightarrow>
   k + length (takeWhile isDigit cs) \<le> 19 \<Longrightarrow>
   parseUintLoop n cs = (0, Some ErrSyntax)"
proof (induction cs arbitrary: n k)
  case Nil
  then show ?case by simp
next
  case (Cons c cs)
  show ?case
  proof (cases "isDigit c")
    case False
    then show ?thesis by simp
  next
    case True
    from True Cons.prems have k: "k \<le> 18" and rest: "\<not> list_all isDigit cs"
      and len: "Suc k + length (takeWhile isDigit cs) \<le> 19"
      by simp_all
    from isDigit_digitVal [OF True] have d: "0 \<le> digitVal c" "digitVal c \<le> 9" by simp_all
    have "(10::int) ^ k \<le> 10 ^ 18" using k by (intro power_increasing) simp_all
    with Cons.prems(3) have n18: "n < 10 ^ 18" by linarith
    have n1: "n * 10 + digitVal c < 10 ^ Suc k" using Cons.prems(3) d by simp
    have "(10::int) ^ Suc k \<le> 10 ^ 19" using k by (intro power_increasing) simp_all
    with n1 have n19: "n * 10 + digitVal c < 10 ^ 19" by linarith
    have nn: "0 \<le> n * 10 + digitVal c" using Cons.prems(2) d by simp
    have c1: "\<not> cutoff10 \<le> n" using n18 by (simp add: cutoff10_def maxUint64_def)
    have c2: "\<not> maxUint64 < n * 10 + digitVal c" using n19 by (simp add: maxUint64_def)
    from Cons.IH [OF rest nn n1 len] True c1 c2 show ?thesis by simp
  qed
qed

lemma Atoi_syntax:
  assumes "\<not> isDecimalInteger s"
    and "length (takeWhile isDigit (unsignedPart s)) \<le> 19"
  shows "Atoi s = (0, Some ErrSyntax)"
proof (cases s)
  case Nil
  then show ?thesis by (simp add: Atoi_def ParseInt_def)
next
  case (Cons c cs)
  let ?body = "if c = CHR ''+'' \<or> c = CHR ''-'' then cs else s"
  have b: "unsignedPart s = ?body" using Cons by (simp add: unsignedPart_def)
  have "ParseUint ?body = (0, Some ErrSyntax)"
  proof (cases "?body = []")
    case True
    then show ?thesis by (simp add: ParseUint_def)
  next
    case False
    with assms(1) b have "\<not> list_all isDigit ?body" by (simp add: isDecimalInteger_def)
    from parseUintLoop_syntax [OF this, of 0 0] assms(2) b False
    show ?thesis by (simp add: ParseUint_def)
  qed
  then show ?thesis using Cons by (auto simp add: Atoi_def ParseInt_def Let_def split: if_splits)
qed

lemma Atoi_empty: "Atoi [] = (0, Some ErrSyntax)"
  by (simp add: Atoi_def ParseInt_def)


subsection \<open>\<open>getSignature\<close>\<close>

lemma parseAndroidManifest_execRun:
  "parseAndroidManifest (e\<lparr>execRun := run\<rparr>) xf = parseAndroidManifest e xf"
  by (simp add: parseAndroidManifest_def prod_eq_iff split: sum.splits)

lemma parseApkFile_execRun:
  "parseApkFile (e\<lparr>execRun := run\<rparr>) x = parseApkFile e x"
  by (simp add: parseApkFile_def parseAndroidManifest_execRun cong: option.case_cong)

lemma NewAppParser_isl:
  "isl (fst (NewAppParser e name kt isIcon)) =
     (case osOpen e name of
        Inl err \<Rightarrow> True
      | Inr file \<Rightarrow>
          (case fStat file of
             Inl err \<Rightarrow> True
           | Inr stat \<Rightarrow>
               Ext (fiName stat) \<noteq> androidExt \<or>
               (case fZip file (fiSize stat) of
                  Inl err \<Rightarrow> True
                | Inr reader \<Rightarrow>
                    isl (fst (parseApkFile e (xmlFile (scanLoop scan0 reader)))) \<or>
                    isl (openFile e name))))"
  by (simp add: NewAppParser_def finish_def parseApkIconAndLabel_def Let_def split: sum.splits)

lemma getSignature_fails:
  "apkPath = [] \<or> keyToolPath = [] \<or>
   (\<exists>err. execRun e keyToolPath [''-printcert'', ''-jarfile'', apkPath] = Inl err) \<Longrightarrow>
   fst (getSignature e apkPath keyToolPath) = ([], [], [])"
  by (auto simp: getSignature_def)

lemma lowerByte_example:
  "lowerByte CHR ''A'' = CHR ''a''" "lowerByte CHR ''B'' = CHR ''b''"
  "lowerByte CHR ''C'' = CHR ''c''" "lowerByte CHR ''D'' = CHR ''d''"
  "lowerByte CHR ''E'' = CHR ''e''" "lowerByte CHR ''F'' = CHR ''f''"
  "lowerByte CHR ''0'' = CHR ''0''" "lowerByte CHR ''1'' = CHR ''1''"
  by code_simp+

lemma normalizeDigest_example: "normalizeDigest ul ''  AB:CD:EF:01'' = ''abcdef01''"
  by (simp add: normalizeDigest_def ToLower_def ReplaceAll_def lowerByte_example)

lemma getSignature_example:
  "apkPath \<noteq> [] \<Longrightarrow> keyToolPath \<noteq> [] \<Longrightarrow>
   execRun e keyToolPath [''-printcert'', ''-jarfile'', apkPath] = Inr ''MD5:  AB:CD:EF:01'' \<Longrightarrow>
   fst (getSignature e apkPath keyToolPath) = (''abcdef01'', [], [])"
  by (simp add: getSignature_def Contains_def Cut_def HasPrefix_def normalizeDigest_example)
    (simp add: normalizeDigest_def ToLower_def ReplaceAll_def)

lemma normalizeDigest_ascii:
  "list_all (\<lambda>c. of_char c < (128::nat)) r \<Longrightarrow>
   normalizeDigest ul r = map lowerByte (filter (\<lambda>c. c \<noteq> CHR '' '' \<and> c \<noteq> CHR '':'') r)"
  by (simp add: normalizeDigest_def ToLower_def ReplaceAll_def list_all_iff conj_commute)

subsection \<open>The resolver\<close>

lemma resolveFrom_depth:
  "depth \<le> maxDepth \<Longrightarrow> snd (resolveFrom table requested depth rid) \<le> maxDepth"
proof (induction table requested depth rid rule: resolveFrom.induct)
  case (1 table requested depth rid)
  show ?case
  proof (cases "bestMatch (table rid) requested")
    case None
    then show ?thesis using "1.prems" by (subst resolveFrom.simps) simp
  next
    case (Some v)
    show ?thesis
    proof (cases v)
      case (Literal s)
      with Some show ?thesis using "1.prems" by (subst resolveFrom.simps) simp
    next
      case (Reference nxt)
      show ?thesis
      proof (cases "maxDepth \<le> depth")
        case True
        with Some Reference show ?thesis using "1.prems" by (subst resolveFrom.simps) simp
      next
        case False
        then have "depth + 1 \<le> maxDepth" by simp
        from "1.IH" [OF Some Reference False this] Some Reference False
        show ?thesis by (subst resolveFrom.simps) simp
      qed
    qed
  qed
qed

lemma resolveFrom_chain:
  "depth \<le> maxDepth \<Longrightarrow> chain table requested (Suc (maxDepth - depth)) rid \<Longrightarrow>
   fst (resolveFrom table requested depth rid) = Inl ResourceCycleError"
proof (induction table requested depth rid rule: resolveFrom.induct)
  case (1 table requested depth rid)
  from "1.prems"(2) obtain nxt where
    t: "refTarget table requested rid = Some nxt"
    and c: "chain table requested (maxDepth - depth) nxt"
    by (auto split: option.splits)
  from t have b: "bestMatch (table rid) requested = Some (Reference nxt)"
    by (auto simp: refTarget_def split: option.splits Value.splits)
  show ?case
  proof (cases "maxDepth \<le> depth")
    case True
    with b show ?thesis by (subst resolveFrom.simps) simp
  next
    case False
    then have d: "depth + 1 \<le> maxDepth" by simp
    from False have "maxDepth - depth = Suc (maxDepth - (depth + 1))" by simp
    with c have "chain table requested (Suc (maxDepth - (depth + 1))) nxt" by simp
    from "1.IH" [OF b refl False d this] b False
    show ?thesis by (subst resolveFrom.simps) simp
  qed
qed

lemma chain_self:
  "refTarget table requested rid = Some rid \<Longrightarrow> chain table requested k rid"
  by (induction k) simp_all

subsection \<open>The sample world\<close>

lemma sample_osOpen:
  "osOpen (sampleEnv [n] es vc tool ic lb) n = Inr (sampleFile n es)"
  by (simp add: sampleEnv_def)

lemma sample_fStat: "fStat (sampleFile n es) = Inr \<lparr>fiName = n, fiSize = 2048\<rparr>"
  by (simp add: sampleFile_def)

lemma sample_fZip: "fZip (sampleFile n es) (fiSize \<lparr>fiName = n, fiSize = 2048\<rparr>) = Inr (map sampleEntry es)"
  by (simp add: sampleFile_def)

lemma sample_openFile:
  "openFile (sampleEnv present es vc tool ic lb) n = Inr (samplePkg ic lb)"
  by (simp add: sampleEnv_def)

lemma sample_manifest:
  "fst (parseAndroidManifest (sampleEnv present es vc tool ic lb) (sampleEntry n)) =
     Inr (sampleManifest vc)"
  by (simp add: parseAndroidManifest_def sampleEnv_def sampleEntry_def)

lemma sample_xmlFile:
  "xmlFile (scanLoop scan0 (map sampleEntry [''AndroidManifest.xml''])) =
     Some (sampleEntry ''AndroidManifest.xml'')"
  by (simp add: scanStep_def scan0_def sampleEntry_def Let_def manifest_not_native)

lemma sample_execRun:
  "execRun (sampleEnv present es vc tool ic lb) ''keytool'' args = tool"
  by (simp add: sampleEnv_def)

lemma selfTable_refTarget:
  "refTarget selfTable \<lparr>density = Some 720, qualifiers = []\<rparr> 2130837504 = Some 2130837504"
  by (simp add: refTarget_def selfTable_def bestMatch_def)

lemma aliasTable_resolve:
  "resolve aliasTable 2130837504 \<lparr>density = Some 720, qualifiers = []\<rparr> = Inr ''large''"
  "resolve aliasTable 2130837504 \<lparr>density = Some 320, qualifiers = []\<rparr> = Inr ''large''"
  "resolve aliasTable 2130837504 \<lparr>density = Some 120, qualifiers = []\<rparr> = Inr ''small''"
  "resolve aliasTable 7 \<lparr>density = Some 120, qualifiers = []\<rparr> = Inl ResourceNotFound"
  by (simp_all add: resolve_def aliasTable_def bestMatch_def betterUp_def betterDown_def
      densityOf_def specificity_def maxDepth_def)

lemma sample_keytool_output:
  "fst (getSignature
         (sampleEnv [''app.apk''] [''AndroidManifest.xml''] ''45''
            (Inr (''Signer #1:'' @ [CHR 0x0A, CHR 0x0A] @ ''Certificate fingerprints:'' @
                  [CHR 0x0A, CHR 0x09] @ '' MD5:  AB:CD:EF:01'' @
                  [CHR 0x0A, CHR 0x09] @ '' SHA1: 12:3F'' @
                  [CHR 0x0A, CHR 0x09] @ '' SHA256: 56:7A'' @ [CHR 0x0A] @
                  ''Signature algorithm name: SHA256withRSA''))
            (Inr (Image [1])) (Inr ''Demo''))
         ''app.apk'' ''keytool'') = (''abcdef01'', ''123f'', ''567a'')"
  by code_simp

section \<open>Claims\<close>

text \<open>
  C1. When \<open>NewAppParser\<close> returns an \<open>AppInfo\<close> for an archive: if no entry of the
  archive is native code (no name ending in \<open>.so\<close>, none under an ABI prefix), both
  \<open>SupportOS64\<close> and \<open>SupportOS32\<close> are true; otherwise \<open>SupportOS64\<close> says
  whether some entry's name begins with \<open>lib/arm64-v8a\<close> and \<open>SupportOS32\<close> whether
  some entry's name begins with \<open>lib/armeabi\<close>. An archive whose only entry is
  \<open>AndroidManifest.xml\<close> gives both flags true; the entries \<open>AndroidManifest.xml\<close>
  and \<open>lib/arm64-v8a/libx.so\<close> give 64-bit true and 32-bit false.
\<close>

theorem arch_flags:
  assumes "fst (NewAppParser e name kt isIcon) = Inr info"
    and "osOpen e name = Inr file" and "fStat file = Inr stat"
    and "fZip file (fiSize stat) = Inr entries"
  shows "(if \<not> (\<exists>f\<in>set entries. nativeEntry (fName f))
          then SupportOS64 info \<and> SupportOS32 info
          else SupportOS64 info = (\<exists>f\<in>set entries. HasPrefix (fName f) ''lib/arm64-v8a'') \<and>
               SupportOS32 info = (\<exists>f\<in>set entries. HasPrefix (fName f) ''lib/armeabi'')) \<and>
         (map fName entries = [''AndroidManifest.xml''] \<longrightarrow>
            SupportOS64 info \<and> SupportOS32 info) \<and>
         (map fName entries = [''AndroidManifest.xml'', ''lib/arm64-v8a/libx.so''] \<longrightarrow>
            SupportOS64 info \<and> \<not> SupportOS32 info)"
proof -
  note f64 = NewAppParser_SupportOS64 [OF assms]
  note f32 = NewAppParser_SupportOS32 [OF assms]
  have general: "if \<not> (\<exists>f\<in>set entries. nativeEntry (fName f))
          then SupportOS64 info \<and> SupportOS32 info
          else SupportOS64 info = (\<exists>f\<in>set entries. HasPrefix (fName f) ''lib/arm64-v8a'') \<and>
               SupportOS32 info = (\<exists>f\<in>set entries. HasPrefix (fName f) ''lib/armeabi'')"
    unfolding f64 f32 nativeEntry_def by (split if_split) blast
  have ex1: "SupportOS64 info \<and> SupportOS32 info"
    if "map fName entries = [''AndroidManifest.xml'']"
  proof -
    from that obtain f1 where "entries = [f1]" "fName f1 = ''AndroidManifest.xml''"
      by (auto simp: map_eq_Cons_conv)
    then show ?thesis unfolding f64 f32 by (simp add: manifest_not_native)
  qed
  have ex2: "SupportOS64 info \<and> \<not> SupportOS32 info"
    if "map fName entries = [''AndroidManifest.xml'', ''lib/arm64-v8a/libx.so'']"
  proof -
    from that obtain f1 f2 where "entries = [f1, f2]" "fName f1 = ''AndroidManifest.xml''"
      "fName f2 = ''lib/arm64-v8a/libx.so''"
      by (auto simp: map_eq_Cons_conv)
    then show ?thesis unfolding f64 f32 by (simp add: manifest_not_native libx_prefixes)
  qed
  from general ex1 ex2 show ?thesis by blast
qed


theorem arch_flags_witness:
  "fst (NewAppParser
         (sampleEnv [''app.apk''] [''AndroidManifest.xml'', ''lib/arm64-v8a/libx.so''] ''45''
            (Inl ErrNotFound) (Inr (Image [1])) (Inr ''Demo''))
         ''app.apk'' ''keytool'' False) =
     Inr \<lparr>Name = ''Demo'', BundleId = ''com.example.app'', Version = ''1.2.3'', Build = 45,
          Icon = None, Size = 2048, SignatureMd5 = [], SignatureSha1 = [],
          SignatureSha256 = [], Md5 = ''0123456789abcdef0123456789abcdef'',
          UsesPermission = [''android.permission.CAMERA'', ''android.permission.INTERNET''],
          SupportOS64 = True, SupportOS32 = False\<rparr> \<and>
   map fName (map sampleEntry [''AndroidManifest.xml'', ''lib/arm64-v8a/libx.so'']) =
     [''AndroidManifest.xml'', ''lib/arm64-v8a/libx.so''] \<and>
   (\<exists>f\<in>set (map sampleEntry [''AndroidManifest.xml'', ''lib/arm64-v8a/libx.so'']).
      nativeEntry (fName f)) \<and>
   SupportOS64 \<lparr>Name = ''Demo'', BundleId = ''com.example.app'', Version = ''1.2.3'', Build = 45,
          Icon = None, Size = 2048, SignatureMd5 = [], SignatureSha1 = [],
          SignatureSha256 = [], Md5 = ''0123456789abcdef0123456789abcdef'',
          UsesPermission = [''android.permission.CAMERA'', ''android.permission.INTERNET''],
          SupportOS64 = True, SupportOS32 = False\<rparr> \<and>
   \<not> SupportOS32 \<lparr>Name = ''Demo'', BundleId = ''com.example.app'', Version = ''1.2.3'', Build = 45,
          Icon = None, Size = 2048, SignatureMd5 = [], SignatureSha1 = [],
          SignatureSha256 = [], Md5 = ''0123456789abcdef0123456789abcdef'',
          UsesPermission = [''android.permission.CAMERA'', ''android.permission.INTERNET''],
          SupportOS64 = True, SupportOS32 = False\<rparr>"
proof -
  let ?es = "[''AndroidManifest.xml'', ''lib/arm64-v8a/libx.so'']"
  let ?W = "sampleEnv [''app.apk''] ?es ''45'' (Inl ErrNotFound) (Inr (Image [1])) (Inr ''Demo'')"
  let ?X = "\<lparr>Name = ''Demo'', BundleId = ''com.example.app'', Version = ''1.2.3'', Build = 45,
          Icon = None, Size = 2048, SignatureMd5 = [], SignatureSha1 = [],
          SignatureSha256 = [], Md5 = ''0123456789abcdef0123456789abcdef'',
          UsesPermission = [''android.permission.CAMERA'', ''android.permission.INTERNET''],
          SupportOS64 = True, SupportOS32 = False\<rparr>"
  have h1: "fst (NewAppParser ?W ''app.apk'' ''keytool'' False) = Inr ?X"
    by code_simp
  have h2: "map fName (map sampleEntry ?es) = ?es"
    by (simp add: sampleEntry_def)
  have h3: "\<exists>f\<in>set (map sampleEntry ?es). nativeEntry (fName f)"
    by (simp add: sampleEntry_def nativeEntry_def libx_prefixes)
  have "SupportOS64 ?X \<and> \<not> SupportOS32 ?X"
    using arch_flags [OF h1 sample_osOpen sample_fStat sample_fZip] h2 by blast
  with h1 h2 h3 show ?thesis by blast
qed

text \<open>
  C2, as amended. \<open>NewAppParser\<close> opens the file and calls \<open>Stat\<close> before it looks at
  the extension. If \<open>os.Open\<close> fails, or \<open>Stat\<close> fails, that error is returned. If
  both succeed and the extension of the file's name is not \<open>.apk\<close>, the result is the
  error "unknown platform". In all three cases \<open>zip.NewReader\<close> is never called: the
  calls made are \<open>os.Open\<close>, then \<open>Stat\<close> and the deferred \<open>Close\<close>.
\<close>

theorem wrong_extension:
  "(osOpen e name = Inl err \<longrightarrow>
      NewAppParser e name kt isIcon = (Inl err, [OsOpen name])) \<and>
   (osOpen e name = Inr file \<and> fStat file = Inl err \<longrightarrow>
      NewAppParser e name kt isIcon = (Inl err, [OsOpen name, FileStat, FileClose])) \<and>
   (osOpen e name = Inr file \<and> fStat file = Inr stat \<and> Ext (fiName stat) \<noteq> androidExt \<longrightarrow>
      NewAppParser e name kt isIcon =
        (Inl (ErrorsNew ''unknown platform''), [OsOpen name, FileStat, FileClose]))"
  by (simp add: NewAppParser_def prod_eq_iff)

theorem wrong_extension_witness:
  "osOpen (sampleEnv [''notes.txt''] [''AndroidManifest.xml''] ''45'' (Inl ErrNotFound)
       (Inr (Image [1])) (Inr ''Demo'')) ''notes.txt'' =
     Inr (sampleFile ''notes.txt'' [''AndroidManifest.xml'']) \<and>
   fStat (sampleFile ''notes.txt'' [''AndroidManifest.xml'']) =
     Inr \<lparr>fiName = ''notes.txt'', fiSize = 2048\<rparr> \<and>
   Ext (fiName \<lparr>fiName = ''notes.txt'', fiSize = 2048\<rparr>) \<noteq> androidExt \<and>
   NewAppParser
     (sampleEnv [''notes.txt''] [''AndroidManifest.xml''] ''45'' (Inl ErrNotFound)
        (Inr (Image [1])) (Inr ''Demo''))
     ''notes.txt'' ''keytool'' False =
   (Inl (ErrorsNew ''unknown platform''), [OsOpen ''notes.txt'', FileStat, FileClose])"
proof -
  let ?W = "sampleEnv [''notes.txt''] [''AndroidManifest.xml''] ''45'' (Inl ErrNotFound)
       (Inr (Image [1])) (Inr ''Demo'')"
  have h3: "Ext (fiName \<lparr>fiName = ''notes.txt'', fiSize = 2048\<rparr>) \<noteq> androidExt"
    by (simp add: Ext_def androidExt_def)
  have "NewAppParser ?W ''notes.txt'' ''keytool'' False =
     (Inl (ErrorsNew ''unknown platform''), [OsOpen ''notes.txt'', FileStat, FileClose])"
    using wrong_extension [of ?W "''notes.txt''" _ "''keytool''" False
        "sampleFile ''notes.txt'' [''AndroidManifest.xml'']"
        "\<lparr>fiName = ''notes.txt'', fiSize = 2048\<rparr>"]
      sample_osOpen sample_fStat h3 by blast
  with sample_osOpen sample_fStat h3 show ?thesis by blast
qed

text \<open>
  C2 as stated fails: the path \<open>notes.txt\<close> has another extension than \<open>.apk\<close>, no
  such file exists, and \<open>NewAppParser\<close> returns the error of \<open>os.Open\<close>, not "unknown
  platform".
\<close>

theorem wrong_extension_counterexample:
  "Ext ''notes.txt'' \<noteq> androidExt \<and>
   NewAppParser
     (sampleEnv [] [''AndroidManifest.xml''] ''45'' (Inl ErrNotFound) (Inr (Image [1])) (Inr ''Demo''))
     ''notes.txt'' ''keytool'' False =
   (Inl (PathError ''notes.txt''), [OsOpen ''notes.txt'']) \<and>
   Inl (PathError ''notes.txt'') \<noteq> (Inl (ErrorsNew ''unknown platform'') :: error + AppInfo)"
  by (simp add: Ext_def androidExt_def NewAppParser_def sampleEnv_def thenE_def call_def retE_def)

text \<open>
  C3, as amended. When \<open>NewAppParser\<close> returns an \<open>AppInfo\<close>, its \<open>Icon\<close> is nil if the
  flag is false, and what the package's \<open>icon\<close> returned if the flag is true. The
  call of \<open>icon\<close> with density 720 is made in both cases: the flag decides only
  whether its result is stored.
\<close>

theorem icon_flag:
  assumes "fst (NewAppParser e name kt isIcon) = Inr info"
    and "openFile e name = Inr pkg"
  shows "Icon info = (if isIcon then fst (icon pkg \<lparr>Density = 720\<rparr>) else None) \<and>
         PkgIcon \<lparr>Density = 720\<rparr> \<in> set (snd (NewAppParser e name kt isIcon))"
  using NewAppParser_fields [OF assms(1)] NewAppParser_Inr_events [OF assms(1)] assms(2)
  by auto

theorem icon_flag_witness:
  "fst (NewAppParser
         (sampleEnv [''app.apk''] [''AndroidManifest.xml''] ''45'' (Inl ErrNotFound)
            (Inr (Image [1])) (Inr ''Demo''))
         ''app.apk'' ''keytool'' True) =
     Inr \<lparr>Name = ''Demo'', BundleId = ''com.example.app'', Version = ''1.2.3'', Build = 45,
          Icon = Some (Image [1]), Size = 2048, SignatureMd5 = [], SignatureSha1 = [],
          SignatureSha256 = [], Md5 = ''0123456789abcdef0123456789abcdef'',
          UsesPermission = [''android.permission.CAMERA'', ''android.permission.INTERNET''],
          SupportOS64 = True, SupportOS32 = True\<rparr> \<and>
   fst (icon (samplePkg (Inr (Image [1])) (Inr ''Demo'')) \<lparr>Density = 720\<rparr>) = Some (Image [1]) \<and>
   PkgIcon \<lparr>Density = 720\<rparr> \<in>
     set (snd (NewAppParser
         (sampleEnv [''app.apk''] [''AndroidManifest.xml''] ''45'' (Inl ErrNotFound)
            (Inr (Image [1])) (Inr ''Demo''))
         ''app.apk'' ''keytool'' True))"
proof -
  let ?W = "sampleEnv [''app.apk''] [''AndroidManifest.xml''] ''45'' (Inl ErrNotFound)
            (Inr (Image [1])) (Inr ''Demo'')"
  let ?X = "\<lparr>Name = ''Demo'', BundleId = ''com.example.app'', Version = ''1.2.3'', Build = 45,
          Icon = Some (Image [1]), Size = 2048, SignatureMd5 = [], SignatureSha1 = [],
          SignatureSha256 = [], Md5 = ''0123456789abcdef0123456789abcdef'',
          UsesPermission = [''android.permission.CAMERA'', ''android.permission.INTERNET''],
          SupportOS64 = True, SupportOS32 = True\<rparr>"
  have h1: "fst (NewAppParser ?W ''app.apk'' ''keytool'' True) = Inr ?X"
    by code_simp
  have h2: "fst (icon (samplePkg (Inr (Image [1])) (Inr ''Demo'')) \<lparr>Density = 720\<rparr>) = Some (Image [1])"
    by (simp add: icon_def samplePkg_def)
  have "PkgIcon \<lparr>Density = 720\<rparr> \<in> set (snd (NewAppParser ?W ''app.apk'' ''keytool'' True))"
    using icon_flag [OF h1 sample_openFile] by blast
  with h1 h2 show ?thesis by blast
qed

text \<open>
  C3 as stated fails: with the flag false the run below still calls \<open>icon\<close> (the
  event \<open>PkgIcon\<close> of its trace), and drops the image.
\<close>

theorem icon_flag_counterexample:
  "NewAppParser
     (sampleEnv [''app.apk''] [''AndroidManifest.xml''] ''45'' (Inl ErrNotFound)
        (Inr (Image [1])) (Inr ''Demo''))
     ''app.apk'' ''keytool'' False =
   (Inr \<lparr>Name = ''Demo'', BundleId = ''com.example.app'', Version = ''1.2.3'', Build = 45,
         Icon = None, Size = 2048, SignatureMd5 = [], SignatureSha1 = [],
         SignatureSha256 = [], Md5 = ''0123456789abcdef0123456789abcdef'',
         UsesPermission = [''android.permission.CAMERA'', ''android.permission.INTERNET''],
         SupportOS64 = True, SupportOS32 = True\<rparr>,
    [OsOpen ''app.apk'', FileStat, ZipNewReader 2048, ZipEntryOpen ''AndroidManifest.xml'',
     ReadAll, NewXMLFileCall, XmlDecode, RcClose, Md5Copy,
     ExecRun ''keytool'' [''-printcert'', ''-jarfile'', ''app.apk''], OpenFile ''app.apk'',
     PkgIcon \<lparr>Density = 720\<rparr>, PkgLabel None, PkgClose, FileClose])"
  by code_simp

text \<open>
  C4. Once \<open>NewAppParser\<close> gets as far as the lookups of icon and label, it returns
  an \<open>AppInfo\<close> and no error, whatever the lookups return; a failed icon lookup leaves
  \<open>Icon\<close> nil and a failed label lookup leaves \<open>Name\<close> empty.
\<close>

theorem lookup_failure_not_fatal:
  assumes "PkgIcon \<lparr>Density = 720\<rparr> \<in> set (snd (NewAppParser e name kt isIcon))"
    and "openFile e name = Inr pkg"
  shows "\<exists>info. fst (NewAppParser e name kt isIcon) = Inr info \<and>
           (\<forall>err. iconLookup pkg \<lparr>Density = 720\<rparr> = Inl err \<longrightarrow> Icon info = None) \<and>
           (\<forall>err. labelLookup pkg None = Inl err \<longrightarrow> Name info = [])"
proof -
  from NewAppParser_lookup_reached [OF assms(1)] obtain info where
    i: "fst (NewAppParser e name kt isIcon) = Inr info" by blast
  from NewAppParser_fields [OF i] assms(2) have
    "Name info = fst (label pkg None)"
    "Icon info = (if isIcon then fst (icon pkg \<lparr>Density = 720\<rparr>) else None)"
    by auto
  then have "(\<forall>err. iconLookup pkg \<lparr>Density = 720\<rparr> = Inl err \<longrightarrow> Icon info = None) \<and>
           (\<forall>err. labelLookup pkg None = Inl err \<longrightarrow> Name info = [])"
    by (auto simp: icon_def label_def)
  with i show ?thesis by blast
qed


theorem lookup_failure_not_fatal_witness:
  "PkgIcon \<lparr>Density = 720\<rparr> \<in>
     set (snd (NewAppParser
         (sampleEnv [''app.apk''] [''AndroidManifest.xml''] ''45'' (Inl ErrNotFound)
            (Inl ResourceNotFound) (Inl ResourceCycleError))
         ''app.apk'' ''keytool'' True)) \<and>
   iconLookup (samplePkg (Inl ResourceNotFound) (Inl ResourceCycleError)) \<lparr>Density = 720\<rparr> =
     Inl ResourceNotFound \<and>
   labelLookup (samplePkg (Inl ResourceNotFound) (Inl ResourceCycleError)) None =
     Inl ResourceCycleError \<and>
   fst (NewAppParser
         (sampleEnv [''app.apk''] [''AndroidManifest.xml''] ''45'' (Inl ErrNotFound)
            (Inl ResourceNotFound) (Inl ResourceCycleError))
         ''app.apk'' ''keytool'' True) =
     Inr \<lparr>Name = [], BundleId = ''com.example.app'', Version = ''1.2.3'', Build = 45,
          Icon = None, Size = 2048, SignatureMd5 = [], SignatureSha1 = [],
          SignatureSha256 = [], Md5 = ''0123456789abcdef0123456789abcdef'',
          UsesPermission = [''android.permission.CAMERA'', ''android.permission.INTERNET''],
          SupportOS64 = True, SupportOS32 = True\<rparr>"
proof -
  let ?W = "sampleEnv [''app.apk''] [''AndroidManifest.xml''] ''45'' (Inl ErrNotFound)
            (Inl ResourceNotFound) (Inl ResourceCycleError)"
  let ?P = "samplePkg (Inl ResourceNotFound) (Inl ResourceCycleError)"
  have tr: "snd (NewAppParser ?W ''app.apk'' ''keytool'' True) =
    [OsOpen ''app.apk'', FileStat, ZipNewReader 2048, ZipEntryOpen ''AndroidManifest.xml'',
     ReadAll, NewXMLFileCall, XmlDecode, RcClose, Md5Copy,
     ExecRun ''keytool'' [''-printcert'', ''-jarfile'', ''app.apk''], OpenFile ''app.apk'',
     PkgIcon \<lparr>Density = 720\<rparr>, PkgLabel None, PkgClose, FileClose]"
    by code_simp
  have h1: "PkgIcon \<lparr>Density = 720\<rparr> \<in> set (snd (NewAppParser ?W ''app.apk'' ''keytool'' True))"
    unfolding tr by simp
  have h2: "iconLookup ?P \<lparr>Density = 720\<rparr> = Inl ResourceNotFound"
    by (simp add: samplePkg_def)
  have h3: "labelLookup ?P None = Inl ResourceCycleError"
    by (simp add: samplePkg_def)
  from lookup_failure_not_fatal [OF h1 sample_openFile] h2 h3
  obtain info where i: "fst (NewAppParser ?W ''app.apk'' ''keytool'' True) = Inr info"
    and n: "Icon info = None" "Name info = []"
    by blast
  have v: "fst (NewAppParser ?W ''app.apk'' ''keytool'' True) =
     Inr \<lparr>Name = [], BundleId = ''com.example.app'', Version = ''1.2.3'', Build = 45,
          Icon = None, Size = 2048, SignatureMd5 = [], SignatureSha1 = [],
          SignatureSha256 = [], Md5 = ''0123456789abcdef0123456789abcdef'',
          UsesPermission = [''android.permission.CAMERA'', ''android.permission.INTERNET''],
          SupportOS64 = True, SupportOS32 = True\<rparr>"
    by code_simp
  from h1 h2 h3 v i n show ?thesis by blast
qed

text \<open>
  C5. A manifest with \<open>package="com.example.app"\<close>, \<open>versionName="1.2.3"\<close> and
  \<open>versionCode="45"\<close>: \<open>parseApkFile\<close> returns an \<open>AppInfo\<close> with \<open>BundleId\<close>
  "com.example.app", \<open>Version\<close> "1.2.3" and \<open>Build\<close> 45, and so does \<open>NewAppParser\<close>
  when it returns one for an archive with this manifest. The fields come from the
  decoded manifest alone: \<open>parseApkFile\<close> opens and decodes the manifest entry and
  makes no resource lookup.
\<close>

theorem manifest_fields:
  assumes "fst (parseAndroidManifest e xf) = Inr m"
    and "Package m = ''com.example.app''" and "VersionName m = ''1.2.3''"
    and "VersionCode m = ''45''"
  shows "(\<exists>info. fst (parseApkFile e (Some xf)) = Inr info \<and>
            BundleId info = ''com.example.app'' \<and> Version info = ''1.2.3'' \<and>
            Build info = 45) \<and>
         set (snd (parseApkFile e (Some xf))) \<subseteq>
           {ZipEntryOpen (fName xf), ReadAll, NewXMLFileCall, XmlDecode, RcClose} \<and>
         (\<forall>name kt isIcon file stat reader info'.
            osOpen e name = Inr file \<and> fStat file = Inr stat \<and>
            fZip file (fiSize stat) = Inr reader \<and>
            xmlFile (scanLoop scan0 reader) = Some xf \<and>
            fst (NewAppParser e name kt isIcon) = Inr info' \<longrightarrow>
            BundleId info' = ''com.example.app'' \<and> Version info' = ''1.2.3'' \<and>
            Build info' = 45)"
proof -
  have a: "\<exists>info. fst (parseApkFile e (Some xf)) = Inr info \<and>
            BundleId info = ''com.example.app'' \<and> Version info = ''1.2.3'' \<and>
            Build info = 45"
    using parseApkFile_of_manifest [OF assms(1)] assms(2-4) by (simp add: Atoi_45)
  have b: "set (snd (parseApkFile e (Some xf))) \<subseteq>
           {ZipEntryOpen (fName xf), ReadAll, NewXMLFileCall, XmlDecode, RcClose}"
    using parseApkFile_events [of e "Some xf"] by simp
  have c: "BundleId info' = ''com.example.app'' \<and> Version info' = ''1.2.3'' \<and>
            Build info' = 45"
    if "osOpen e name = Inr fl" "fStat fl = Inr stat" "fZip fl (fiSize stat) = Inr reader"
      "xmlFile (scanLoop scan0 reader) = Some xf"
      "fst (NewAppParser e name kt isIcon) = Inr info'"
    for name kt isIcon fl stat reader info'
    using NewAppParser_manifest [OF that(5) that(1-4) assms(1)] assms(2-4)
    by (simp add: Atoi_45)
  from a b c show ?thesis by blast
qed

theorem manifest_fields_witness:
  "fst (parseAndroidManifest
         (sampleEnv [''app.apk''] [''AndroidManifest.xml''] ''45'' (Inl ErrNotFound)
            (Inr (Image [1])) (Inr ''Demo''))
         (sampleEntry ''AndroidManifest.xml'')) = Inr (sampleManifest ''45'') \<and>
   Package (sampleManifest ''45'') = ''com.example.app'' \<and>
   VersionName (sampleManifest ''45'') = ''1.2.3'' \<and>
   VersionCode (sampleManifest ''45'') = ''45'' \<and>
   fst (parseApkFile
         (sampleEnv [''app.apk''] [''AndroidManifest.xml''] ''45'' (Inl ErrNotFound)
            (Inr (Image [1])) (Inr ''Demo''))
         (Some (sampleEntry ''AndroidManifest.xml''))) =
     Inr \<lparr>Name = [], BundleId = ''com.example.app'', Version = ''1.2.3'', Build = 45,
          Icon = None, Size = 0, SignatureMd5 = [], SignatureSha1 = [],
          SignatureSha256 = [], Md5 = [],
          UsesPermission = [''android.permission.CAMERA'', ''android.permission.INTERNET''],
          SupportOS64 = False, SupportOS32 = False\<rparr> \<and>
   fst (NewAppParser
         (sampleEnv [''app.apk''] [''AndroidManifest.xml''] ''45'' (Inl ErrNotFound)
            (Inr (Image [1])) (Inr ''Demo''))
         ''app.apk'' ''keytool'' False) =
     Inr \<lparr>Name = ''Demo'', BundleId = ''com.example.app'', Version = ''1.2.3'', Build = 45,
          Icon = None, Size = 2048, SignatureMd5 = [], SignatureSha1 = [],
          SignatureSha256 = [], Md5 = ''0123456789abcdef0123456789abcdef'',
          UsesPermission = [''android.permission.CAMERA'', ''android.permission.INTERNET''],
          SupportOS64 = True, SupportOS32 = True\<rparr>"
proof -
  let ?W = "sampleEnv [''app.apk''] [''AndroidManifest.xml''] ''45'' (Inl ErrNotFound)
            (Inr (Image [1])) (Inr ''Demo'')"
  let ?E = "sampleEntry ''AndroidManifest.xml''"
  let ?Y = "\<lparr>Name = ''Demo'', BundleId = ''com.example.app'', Version = ''1.2.3'', Build = 45,
          Icon = None, Size = 2048, SignatureMd5 = [], SignatureSha1 = [],
          SignatureSha256 = [], Md5 = ''0123456789abcdef0123456789abcdef'',
          UsesPermission = [''android.permission.CAMERA'', ''android.permission.INTERNET''],
          SupportOS64 = True, SupportOS32 = True\<rparr>"
  have m1: "Package (sampleManifest ''45'') = ''com.example.app''"
    and m2: "VersionName (sampleManifest ''45'') = ''1.2.3''"
    and m3: "VersionCode (sampleManifest ''45'') = ''45''"
    by (simp_all add: sampleManifest_def)
  note t = manifest_fields [OF sample_manifest m1 m2 m3, of "[''app.apk'']"
      "[''AndroidManifest.xml'']" "Inl ErrNotFound" "Inr (Image [1])" "Inr ''Demo''"
      "''AndroidManifest.xml''"]
  have x: "fst (parseApkFile ?W (Some ?E)) =
     Inr \<lparr>Name = [], BundleId = ''com.example.app'', Version = ''1.2.3'', Build = 45,
          Icon = None, Size = 0, SignatureMd5 = [], SignatureSha1 = [],
          SignatureSha256 = [], Md5 = [],
          UsesPermission = [''android.permission.CAMERA'', ''android.permission.INTERNET''],
          SupportOS64 = False, SupportOS32 = False\<rparr>"
    by code_simp
  have y: "fst (NewAppParser ?W ''app.apk'' ''keytool'' False) = Inr ?Y"
    by code_simp
  have "BundleId ?Y = ''com.example.app'' \<and> Version ?Y = ''1.2.3'' \<and> Build ?Y = 45"
    using t sample_osOpen sample_fStat sample_fZip sample_xmlFile y by blast
  with sample_manifest m1 m2 m3 x y show ?thesis by blast
qed

text \<open>
  C6. \<open>UsesPermission\<close> of the \<open>AppInfo\<close> that \<open>parseApkFile\<close> returns, and of the one
  \<open>NewAppParser\<close> returns, is the list of the \<open>name\<close> attributes of the manifest's
  \<open>uses-permission\<close> elements: every element, in declaration order, duplicates
  kept. Two elements named "android.permission.CAMERA" and
  "android.permission.INTERNET" give exactly these two strings in this order.
\<close>

theorem permissions_in_order:
  assumes "fst (parseAndroidManifest e xf) = Inr m"
  shows "(\<exists>info. fst (parseApkFile e (Some xf)) = Inr info \<and>
            UsesPermission info = map up_Name (m_UsesPermission m)) \<and>
         (\<forall>name kt isIcon file stat reader info'.
            osOpen e name = Inr file \<and> fStat file = Inr stat \<and>
            fZip file (fiSize stat) = Inr reader \<and>
            xmlFile (scanLoop scan0 reader) = Some xf \<and>
            fst (NewAppParser e name kt isIcon) = Inr info' \<longrightarrow>
            UsesPermission info' = map up_Name (m_UsesPermission m)) \<and>
         (\<forall>u1 u2. m_UsesPermission m = [u1, u2] \<and>
            up_Name u1 = ''android.permission.CAMERA'' \<and>
            up_Name u2 = ''android.permission.INTERNET'' \<longrightarrow>
            (\<exists>info. fst (parseApkFile e (Some xf)) = Inr info \<and>
               UsesPermission info =
                 [''android.permission.CAMERA'', ''android.permission.INTERNET'']))"
proof -
  have a: "\<exists>info. fst (parseApkFile e (Some xf)) = Inr info \<and>
            UsesPermission info = map up_Name (m_UsesPermission m)"
    using parseApkFile_of_manifest [OF assms(1)] by simp
  have c: "UsesPermission info' = map up_Name (m_UsesPermission m)"
    if "osOpen e name = Inr fl" "fStat fl = Inr stat" "fZip fl (fiSize stat) = Inr reader"
      "xmlFile (scanLoop scan0 reader) = Some xf"
      "fst (NewAppParser e name kt isIcon) = Inr info'"
    for name kt isIcon fl stat reader info'
    using NewAppParser_manifest [OF that(5) that(1-4) assms(1)] by simp
  have d: "\<exists>info. fst (parseApkFile e (Some xf)) = Inr info \<and>
               UsesPermission info =
                 [''android.permission.CAMERA'', ''android.permission.INTERNET'']"
    if "m_UsesPermission m = [u1, u2]" "up_Name u1 = ''android.permission.CAMERA''"
      "up_Name u2 = ''android.permission.INTERNET''" for u1 u2
    using a that by simp
  from a c d show ?thesis by blast
qed

theorem permissions_in_order_witness:
  "fst (parseAndroidManifest
         (sampleEnv [''app.apk''] [''AndroidManifest.xml''] ''45'' (Inl ErrNotFound)
            (Inr (Image [1])) (Inr ''Demo''))
         (sampleEntry ''AndroidManifest.xml'')) = Inr (sampleManifest ''45'') \<and>
   map up_Name (m_UsesPermission (sampleManifest ''45'')) =
     [''android.permission.CAMERA'', ''android.permission.INTERNET''] \<and>
   UsesPermission
     \<lparr>Name = ''Demo'', BundleId = ''com.example.app'', Version = ''1.2.3'', Build = 45,
      Icon = None, Size = 2048, SignatureMd5 = [], SignatureSha1 = [],
      SignatureSha256 = [], Md5 = ''0123456789abcdef0123456789abcdef'',
      UsesPermission = [''android.permission.CAMERA'', ''android.permission.INTERNET''],
      SupportOS64 = True, SupportOS32 = True\<rparr> =
     map up_Name (m_UsesPermission (sampleManifest ''45'')) \<and>
   fst (NewAppParser
         (sampleEnv [''app.apk''] [''AndroidManifest.xml''] ''45'' (Inl ErrNotFound)
            (Inr (Image [1])) (Inr ''Demo''))
         ''app.apk'' ''keytool'' False) =
     Inr \<lparr>Name = ''Demo'', BundleId = ''com.example.app'', Version = ''1.2.3'', Build = 45,
          Icon = None, Size = 2048, SignatureMd5 = [], SignatureSha1 = [],
          SignatureSha256 = [], Md5 = ''0123456789abcdef0123456789abcdef'',
          UsesPermission = [''android.permission.CAMERA'', ''android.permission.INTERNET''],
          SupportOS64 = True, SupportOS32 = True\<rparr>"
proof -
  let ?W = "sampleEnv [''app.apk''] [''AndroidManifest.xml''] ''45'' (Inl ErrNotFound)
            (Inr (Image [1])) (Inr ''Demo'')"
  let ?Y = "\<lparr>Name = ''Demo'', BundleId = ''com.example.app'', Version = ''1.2.3'', Build = 45,
          Icon = None, Size = 2048, SignatureMd5 = [], SignatureSha1 = [],
          SignatureSha256 = [], Md5 = ''0123456789abcdef0123456789abcdef'',
          UsesPermission = [''android.permission.CAMERA'', ''android.permission.INTERNET''],
          SupportOS64 = True, SupportOS32 = True\<rparr>"
  note t = permissions_in_order [OF sample_manifest, of "[''app.apk'']"
      "[''AndroidManifest.xml'']" "''45''" "Inl ErrNotFound" "Inr (Image [1])" "Inr ''Demo''"
      "''AndroidManifest.xml''"]
  have p: "map up_Name (m_UsesPermission (sampleManifest ''45'')) =
     [''android.permission.CAMERA'', ''android.permission.INTERNET'']"
    by (simp add: sampleManifest_def)
  have y: "fst (NewAppParser ?W ''app.apk'' ''keytool'' False) = Inr ?Y"
    by code_simp
  have "UsesPermission ?Y = map up_Name (m_UsesPermission (sampleManifest ''45''))"
    using t sample_osOpen sample_fStat sample_fZip sample_xmlFile y by blast
  with sample_manifest p y show ?thesis by blast
qed

text \<open>
  C7, as amended. When the digest tool is not given, is missing or exits with a
  non-zero status (\<open>Run\<close> returns an error), \<open>getSignature\<close> returns three empty
  strings, and an \<open>AppInfo\<close> that \<open>NewAppParser\<close> returns has three empty digest
  fields; whether \<open>NewAppParser\<close> returns an \<open>AppInfo\<close> or an error does not depend
  on the tool or on its path. When the tool prints the line \<open>MD5:  AB:CD:EF:01\<close>, the
  MD5 digest is \<open>abcdef01\<close>: a value of ASCII bytes has its space characters and its
  colons removed and its letters lower-cased; every other byte, a tab or a carriage
  return too, stays.
\<close>

theorem signature_degrades:
  "(apkPath = [] \<or> keyToolPath = [] \<or>
      (\<exists>err. execRun e keyToolPath [''-printcert'', ''-jarfile'', apkPath] = Inl err) \<longrightarrow>
      fst (getSignature e apkPath keyToolPath) = ([], [], [])) \<and>
   ((keyToolPath = [] \<or>
       (\<exists>err. execRun e keyToolPath [''-printcert'', ''-jarfile'', apkPath] = Inl err)) \<and>
      fst (NewAppParser e apkPath keyToolPath isIcon) = Inr info \<longrightarrow>
      SignatureMd5 info = [] \<and> SignatureSha1 info = [] \<and> SignatureSha256 info = []) \<and>
   isl (fst (NewAppParser (e\<lparr>execRun := run\<rparr>) apkPath kt isIcon)) =
     isl (fst (NewAppParser e apkPath keyToolPath isIcon)) \<and>
   (apkPath \<noteq> [] \<and> keyToolPath \<noteq> [] \<and>
      execRun e keyToolPath [''-printcert'', ''-jarfile'', apkPath] = Inr ''MD5:  AB:CD:EF:01'' \<longrightarrow>
      fst (getSignature e apkPath keyToolPath) = (''abcdef01'', [], [])) \<and>
   (list_all (\<lambda>c. of_char c < (128::nat)) r \<longrightarrow>
      normalizeDigest (unicodeLower e) r =
        map lowerByte (filter (\<lambda>c. c \<noteq> CHR '' '' \<and> c \<noteq> CHR '':'') r))"
proof -
  have a: "fst (getSignature e apkPath keyToolPath) = ([], [], [])"
    if "apkPath = [] \<or> keyToolPath = [] \<or>
      (\<exists>err. execRun e keyToolPath [''-printcert'', ''-jarfile'', apkPath] = Inl err)"
    using getSignature_fails [OF that] .
  have b: "SignatureMd5 info = [] \<and> SignatureSha1 info = [] \<and> SignatureSha256 info = []"
    if t: "keyToolPath = [] \<or>
       (\<exists>err. execRun e keyToolPath [''-printcert'', ''-jarfile'', apkPath] = Inl err)"
      and i: "fst (NewAppParser e apkPath keyToolPath isIcon) = Inr info"
  proof -
    from t have "fst (getSignature e apkPath keyToolPath) = ([], [], [])"
      by (intro getSignature_fails) blast
    with NewAppParser_fields [OF i] show ?thesis by auto
  qed
  have c: "isl (fst (NewAppParser (e\<lparr>execRun := run\<rparr>) apkPath kt isIcon)) =
     isl (fst (NewAppParser e apkPath keyToolPath isIcon))"
    by (simp add: NewAppParser_isl parseApkFile_execRun cong: sum.case_cong)
  have d: "fst (getSignature e apkPath keyToolPath) = (''abcdef01'', [], [])"
    if "apkPath \<noteq> []" "keyToolPath \<noteq> []"
      "execRun e keyToolPath [''-printcert'', ''-jarfile'', apkPath] = Inr ''MD5:  AB:CD:EF:01''"
    using getSignature_example [OF that] .
  from a b c d normalizeDigest_ascii show ?thesis by blast
qed


theorem signature_degrades_witness:
  "execRun (sampleEnv [''app.apk''] [''AndroidManifest.xml''] ''45'' (Inl (ExitError 1))
       (Inr (Image [1])) (Inr ''Demo''))
     ''keytool'' [''-printcert'', ''-jarfile'', ''app.apk''] = Inl (ExitError 1) \<and>
   fst (NewAppParser
         (sampleEnv [''app.apk''] [''AndroidManifest.xml''] ''45'' (Inl (ExitError 1))
            (Inr (Image [1])) (Inr ''Demo''))
         ''app.apk'' ''keytool'' False) =
     Inr \<lparr>Name = ''Demo'', BundleId = ''com.example.app'', Version = ''1.2.3'', Build = 45,
          Icon = None, Size = 2048, SignatureMd5 = [], SignatureSha1 = [],
          SignatureSha256 = [], Md5 = ''0123456789abcdef0123456789abcdef'',
          UsesPermission = [''android.permission.CAMERA'', ''android.permission.INTERNET''],
          SupportOS64 = True, SupportOS32 = True\<rparr> \<and>
   execRun (sampleEnv [''app.apk''] [''AndroidManifest.xml''] ''45''
       (Inr ''MD5:  AB:CD:EF:01'') (Inr (Image [1])) (Inr ''Demo''))
     ''keytool'' [''-printcert'', ''-jarfile'', ''app.apk''] = Inr ''MD5:  AB:CD:EF:01'' \<and>
   fst (getSignature
         (sampleEnv [''app.apk''] [''AndroidManifest.xml''] ''45''
            (Inr ''MD5:  AB:CD:EF:01'') (Inr (Image [1])) (Inr ''Demo''))
         ''app.apk'' ''keytool'') = (''abcdef01'', [], [])"
proof -
  let ?W = "sampleEnv [''app.apk''] [''AndroidManifest.xml''] ''45'' (Inl (ExitError 1))
       (Inr (Image [1])) (Inr ''Demo'')"
  let ?V = "sampleEnv [''app.apk''] [''AndroidManifest.xml''] ''45''
       (Inr ''MD5:  AB:CD:EF:01'') (Inr (Image [1])) (Inr ''Demo'')"
  let ?args = "[''-printcert'', ''-jarfile'', ''app.apk'']"
  have h1: "execRun ?W ''keytool'' ?args = Inl (ExitError 1)"
    by (rule sample_execRun)
  have h2: "fst (NewAppParser ?W ''app.apk'' ''keytool'' False) =
     Inr \<lparr>Name = ''Demo'', BundleId = ''com.example.app'', Version = ''1.2.3'', Build = 45,
          Icon = None, Size = 2048, SignatureMd5 = [], SignatureSha1 = [],
          SignatureSha256 = [], Md5 = ''0123456789abcdef0123456789abcdef'',
          UsesPermission = [''android.permission.CAMERA'', ''android.permission.INTERNET''],
          SupportOS64 = True, SupportOS32 = True\<rparr>"
    by code_simp
  have h3: "execRun ?V ''keytool'' ?args = Inr ''MD5:  AB:CD:EF:01''"
    by (rule sample_execRun)
  have n: "''app.apk'' \<noteq> []" "''keytool'' \<noteq> []" by simp_all
  have "fst (getSignature ?V ''app.apk'' ''keytool'') = (''abcdef01'', [], [])"
    using signature_degrades [of "''app.apk''" "''keytool''" ?V] h3 n by blast
  moreover have "fst (getSignature ?W ''app.apk'' ''keytool'') = ([], [], [])"
    using signature_degrades [of "''app.apk''" "''keytool''" ?W] h1 by blast
  ultimately show ?thesis using h1 h2 h3 by blast
qed

text \<open>
  C7 as stated fails: the tool's output below ends its line with a carriage return
  and a line feed; the carriage return is white space, and it stays in the digest.
\<close>

theorem signature_degrades_counterexample:
  "fst (getSignature
         (sampleEnv [''app.apk''] [''AndroidManifest.xml''] ''45''
            (Inr (''MD5:  AB:CD:EF:01'' @ [CHR 0x0D, CHR 0x0A]))
            (Inr (Image [1])) (Inr ''Demo''))
         ''app.apk'' ''keytool'') = (''abcdef01'' @ [CHR 0x0D], [], []) \<and>
   ''abcdef01'' @ [CHR 0x0D] \<noteq> ''abcdef01''"
  by code_simp

text \<open>
  C8. Resolution follows at most \<open>maxDepth\<close> (10) references. A chain of more
  references than that, and so an entry that refers to itself, ends in the
  resource-cycle error; the depth counter never exceeds the bound, for every table,
  id and configuration.
\<close>

theorem resolve_bounded:
  "(chain table requested (Suc maxDepth) rid \<longrightarrow>
      resolve table rid requested = Inl ResourceCycleError) \<and>
   (refTarget table requested rid = Some rid \<longrightarrow>
      resolve table rid requested = Inl ResourceCycleError) \<and>
   snd (resolveFrom table requested 0 rid) \<le> maxDepth"
proof -
  have a: "resolve table rid requested = Inl ResourceCycleError"
    if "chain table requested (Suc maxDepth) rid"
    using resolveFrom_chain [of 0 table requested rid] that by (simp add: resolve_def)
  have b: "resolve table rid requested = Inl ResourceCycleError"
    if "refTarget table requested rid = Some rid"
    using resolveFrom_chain [of 0 table requested rid] chain_self [OF that, of "Suc maxDepth"]
    by (simp add: resolve_def)
  have c: "snd (resolveFrom table requested 0 rid) \<le> maxDepth"
    by (rule resolveFrom_depth) simp
  from a b c show ?thesis by blast
qed

theorem resolve_bounded_witness:
  "refTarget selfTable \<lparr>density = Some 720, qualifiers = []\<rparr> 2130837504 = Some 2130837504 \<and>
   resolve selfTable 2130837504 \<lparr>density = Some 720, qualifiers = []\<rparr> =
     Inl ResourceCycleError"
  using resolve_bounded [of selfTable "\<lparr>density = Some 720, qualifiers = []\<rparr>" 2130837504]
    selfTable_refTarget by blast

text \<open>
  C9. An archive with an entry whose name ends in \<open>.so\<close> and no entry under
  \<open>lib/arm64-v8a\<close> or \<open>lib/armeabi\<close> (native libraries under \<open>lib/x86/\<close> only,
  say): when \<open>NewAppParser\<close> returns an \<open>AppInfo\<close>, both \<open>SupportOS64\<close> and
  \<open>SupportOS32\<close> are false.
\<close>

theorem arch_flags_so_without_arm:
  assumes "fst (NewAppParser e name kt isIcon) = Inr info"
    and "osOpen e name = Inr file" and "fStat file = Inr stat"
    and "fZip file (fiSize stat) = Inr entries"
    and "\<exists>f\<in>set entries. HasSuffix (fName f) ''.so''"
    and "\<not> (\<exists>f\<in>set entries. HasPrefix (fName f) ''lib/arm64-v8a'')"
    and "\<not> (\<exists>f\<in>set entries. HasPrefix (fName f) ''lib/armeabi'')"
  shows "SupportOS64 info = False \<and> SupportOS32 info = False"
  using NewAppParser_flags [OF assms(1-4)] assms(5-7)
  by (simp add: setSupport_flags scanLoop_supportOS64 scanLoop_supportOS32 scanLoop_hasSoFile scan0_def)

theorem arch_flags_so_without_arm_witness:
  "fst (NewAppParser
         (sampleEnv [''app.apk''] [''AndroidManifest.xml'', ''lib/x86/libx.so''] ''45''
            (Inl ErrNotFound) (Inr (Image [1])) (Inr ''Demo''))
         ''app.apk'' ''keytool'' False) =
     Inr \<lparr>Name = ''Demo'', BundleId = ''com.example.app'', Version = ''1.2.3'', Build = 45,
          Icon = None, Size = 2048, SignatureMd5 = [], SignatureSha1 = [],
          SignatureSha256 = [], Md5 = ''0123456789abcdef0123456789abcdef'',
          UsesPermission = [''android.permission.CAMERA'', ''android.permission.INTERNET''],
          SupportOS64 = False, SupportOS32 = False\<rparr> \<and>
   (\<exists>f\<in>set (map sampleEntry [''AndroidManifest.xml'', ''lib/x86/libx.so'']).
      HasSuffix (fName f) ''.so'') \<and>
   \<not> (\<exists>f\<in>set (map sampleEntry [''AndroidManifest.xml'', ''lib/x86/libx.so'']).
      HasPrefix (fName f) ''lib/arm64-v8a'') \<and>
   \<not> (\<exists>f\<in>set (map sampleEntry [''AndroidManifest.xml'', ''lib/x86/libx.so'']).
      HasPrefix (fName f) ''lib/armeabi'') \<and>
   SupportOS64 \<lparr>Name = ''Demo'', BundleId = ''com.example.app'', Version = ''1.2.3'', Build = 45,
          Icon = None, Size = 2048, SignatureMd5 = [], SignatureSha1 = [],
          SignatureSha256 = [], Md5 = ''0123456789abcdef0123456789abcdef'',
          UsesPermission = [''android.permission.CAMERA'', ''android.permission.INTERNET''],
          SupportOS64 = False, SupportOS32 = False\<rparr> = False"
proof -
  let ?es = "[''AndroidManifest.xml'', ''lib/x86/libx.so'']"
  let ?W = "sampleEnv [''app.apk''] ?es ''45'' (Inl ErrNotFound) (Inr (Image [1])) (Inr ''Demo'')"
  let ?X = "\<lparr>Name = ''Demo'', BundleId = ''com.example.app'', Version = ''1.2.3'', Build = 45,
          Icon = None, Size = 2048, SignatureMd5 = [], SignatureSha1 = [],
          SignatureSha256 = [], Md5 = ''0123456789abcdef0123456789abcdef'',
          UsesPermission = [''android.permission.CAMERA'', ''android.permission.INTERNET''],
          SupportOS64 = False, SupportOS32 = False\<rparr>"
  have h1: "fst (NewAppParser ?W ''app.apk'' ''keytool'' False) = Inr ?X"
    by code_simp
  have h5: "\<exists>f\<in>set (map sampleEntry ?es). HasSuffix (fName f) ''.so''"
    by (simp add: sampleEntry_def HasSuffix_def)
  have h6: "\<not> (\<exists>f\<in>set (map sampleEntry ?es). HasPrefix (fName f) ''lib/arm64-v8a'')"
    by (simp add: sampleEntry_def HasPrefix_def)
  have h7: "\<not> (\<exists>f\<in>set (map sampleEntry ?es). HasPrefix (fName f) ''lib/armeabi'')"
    by (simp add: sampleEntry_def HasPrefix_def)
  from arch_flags_so_without_arm [OF h1 sample_osOpen sample_fStat sample_fZip h5 h6 h7] h1 h5 h6 h7
  show ?thesis by blast
qed



text \<open>
  C10, as amended. For every manifest that decodes, \<open>parseApkFile\<close> returns an
  \<open>AppInfo\<close> and no error, with \<open>Build\<close> the value \<open>strconv.Atoi\<close> returns for
  \<open>versionCode\<close>, its error dropped. \<open>Build\<close> is 0 when \<open>versionCode\<close> is absent
  (empty), and when it is no decimal integer string and at most 19 digits come before
  its first other character (after an optional sign).
\<close>

theorem version_code_fallback:
  assumes "fst (parseAndroidManifest e xf) = Inr m"
  shows "\<exists>info. fst (parseApkFile e (Some xf)) = Inr info \<and>
           Build info = fst (Atoi (VersionCode m)) \<and>
           (VersionCode m = [] \<longrightarrow> Build info = 0) \<and>
           (\<not> isDecimalInteger (VersionCode m) \<and>
            length (takeWhile isDigit (unsignedPart (VersionCode m))) \<le> 19 \<longrightarrow>
            Build info = 0)"
  using parseApkFile_of_manifest [OF assms(1)]
  by (auto simp: Atoi_syntax Atoi_empty)

theorem version_code_fallback_witness:
  "fst (parseAndroidManifest
         (sampleEnv [''app.apk''] [''AndroidManifest.xml''] ''4x5'' (Inl ErrNotFound)
            (Inr (Image [1])) (Inr ''Demo''))
         (sampleEntry ''AndroidManifest.xml'')) = Inr (sampleManifest ''4x5'') \<and>
   \<not> isDecimalInteger (VersionCode (sampleManifest ''4x5'')) \<and>
   length (takeWhile isDigit (unsignedPart (VersionCode (sampleManifest ''4x5'')))) \<le> 19 \<and>
   fst (parseApkFile
         (sampleEnv [''app.apk''] [''AndroidManifest.xml''] ''4x5'' (Inl ErrNotFound)
            (Inr (Image [1])) (Inr ''Demo''))
         (Some (sampleEntry ''AndroidManifest.xml''))) =
     Inr \<lparr>Name = [], BundleId = ''com.example.app'', Version = ''1.2.3'', Build = 0,
          Icon = None, Size = 0, SignatureMd5 = [], SignatureSha1 = [],
          SignatureSha256 = [], Md5 = [],
          UsesPermission = [''android.permission.CAMERA'', ''android.permission.INTERNET''],
          SupportOS64 = False, SupportOS32 = False\<rparr>"
proof -
  let ?W = "sampleEnv [''app.apk''] [''AndroidManifest.xml''] ''4x5'' (Inl ErrNotFound)
            (Inr (Image [1])) (Inr ''Demo'')"
  let ?E = "sampleEntry ''AndroidManifest.xml''"
  have h1: "\<not> isDecimalInteger (VersionCode (sampleManifest ''4x5''))"
    by (simp add: sampleManifest_def isDecimalInteger_def unsignedPart_def isDigit_def)
  have h2: "length (takeWhile isDigit (unsignedPart (VersionCode (sampleManifest ''4x5'')))) \<le> 19"
    by (simp add: sampleManifest_def unsignedPart_def isDigit_def)
  from version_code_fallback [OF sample_manifest, of "[''app.apk'']"
      "[''AndroidManifest.xml'']" "''4x5''" "Inl ErrNotFound" "Inr (Image [1])" "Inr ''Demo''"
      "''AndroidManifest.xml''"] h1 h2
  obtain info where i: "fst (parseApkFile ?W (Some ?E)) = Inr info" and "Build info = 0"
    by blast
  have x: "fst (parseApkFile ?W (Some ?E)) =
     Inr \<lparr>Name = [], BundleId = ''com.example.app'', Version = ''1.2.3'', Build = 0,
          Icon = None, Size = 0, SignatureMd5 = [], SignatureSha1 = [],
          SignatureSha256 = [], Md5 = [],
          UsesPermission = [''android.permission.CAMERA'', ''android.permission.INTERNET''],
          SupportOS64 = False, SupportOS32 = False\<rparr>"
    by code_simp
  from sample_manifest h1 h2 x i show ?thesis by blast
qed

text \<open>
  C10 as stated fails: \<open>99999999999999999999x\<close> is no decimal integer string, but its
  first twenty digits overflow 64 bits before the \<open>x\<close> is read, so \<open>Atoi\<close> returns
  the largest \<open>int\<close> with a range error, and \<open>Build\<close> is that value, not 0.
\<close>

theorem version_code_fallback_counterexample:
  "\<not> isDecimalInteger ''99999999999999999999x'' \<and>
   fst (parseApkFile
         (sampleEnv [''app.apk''] [''AndroidManifest.xml''] ''99999999999999999999x''
            (Inl ErrNotFound) (Inr (Image [1])) (Inr ''Demo''))
         (Some (sampleEntry ''AndroidManifest.xml''))) =
     Inr \<lparr>Name = [], BundleId = ''com.example.app'', Version = ''1.2.3'',
          Build = 9223372036854775807,
          Icon = None, Size = 0, SignatureMd5 = [], SignatureSha1 = [],
          SignatureSha256 = [], Md5 = [],
          UsesPermission = [''android.permission.CAMERA'', ''android.permission.INTERNET''],
          SupportOS64 = False, SupportOS32 = False\<rparr>"
  by code_simp



end
